theory Spec2Isabelle
  imports Main "HOL-Library.FSet"
begin

section \<open>The forwarding-rule resource of the Google provider\<close>

text \<open>
  A shallow embedding of \<^verbatim>\<open>google/resource_compute_forwarding_rule.go\<close>.
  The four handlers mutate a \<^verbatim>\<open>*schema.ResourceData\<close> and call the Compute API;
  here a handler takes the resource data and the list of API calls made so far and returns
  the Go \<^verbatim>\<open>error\<close> (\<open>None\<close> for \<^verbatim>\<open>nil\<close>), the resource data as the handler leaves
  it and the extended list of calls. Calls to \<^verbatim>\<open>log.Printf\<close> are left out.
\<close>

subsection \<open>Errors\<close>

datatype error = Error (message: string)

text \<open>\<^verbatim>\<open>fmt.Errorf(prefix + "%s", err)\<close>: the prefix followed by \<^verbatim>\<open>err.Error()\<close>.\<close>

definition Errorf :: "string \<Rightarrow> error \<Rightarrow> error" where
  "Errorf prefix err = Error (prefix @ message err)"

subsection \<open>The schema declaration\<close>

datatype ValueType = TypeString | TypeSet

datatype SchemaDiffSuppressFunc =
    compareSelfLinkRelativePaths
  | caseDiffSuppress
  | compareSelfLinkOrResourceName
  | portRangeDiffSuppress

datatype SchemaValidateFunc = StringInSlice "string list" bool

datatype SchemaSetFunc = HashString

datatype StateFunc = ImportStatePassthrough

text \<open>
  \<^verbatim>\<open>schema.Schema\<close>, with the fields the declaration of this resource sets. \<open>Elem\<close> holds
  the \<^verbatim>\<open>Type\<close> of the element schema, \<open>SetFunc\<close> the field \<^verbatim>\<open>Set\<close>. A field the
  literal leaves out has Go's zero value, as in \<open>zeroSchema\<close>.
\<close>

record Schema =
  Type :: ValueType
  Required :: bool
  Optional :: bool
  ForceNew :: bool
  Computed :: bool
  Default :: "string option"
  DiffSuppressFunc :: "SchemaDiffSuppressFunc option"
  ValidateFunc :: "SchemaValidateFunc option"
  Elem :: "ValueType option"
  SetFunc :: "SchemaSetFunc option"
  MaxItems :: nat

definition zeroSchema :: "ValueType \<Rightarrow> Schema" where
  "zeroSchema t = \<lparr> Type = t, Required = False, Optional = False, ForceNew = False,
     Computed = False, Default = None, DiffSuppressFunc = None, ValidateFunc = None,
     Elem = None, SetFunc = None, MaxItems = 0 \<rparr>"

subsection \<open>Resource data\<close>

text \<open>
  \<^verbatim>\<open>schema.ResourceData\<close>, as far as the handlers use it. The schema fixes the type of
  every attribute, so the type assertions of the source cannot fail: the string attributes
  are \<open>rd_strings\<close> (an attribute that is not set reads as the empty string) and the set
  attributes are \<open>rd_sets\<close>. \<open>rd_changed\<close> is what \<^verbatim>\<open>HasChange\<close> answers: it compares the
  prior state with the planned one and a later \<^verbatim>\<open>d.Set\<close> does not alter it.
\<close>

record ResourceData =
  rd_id :: string
  rd_strings :: "string \<Rightarrow> string"
  rd_sets :: "string \<Rightarrow> string fset"
  rd_changed :: "string \<Rightarrow> bool"
  rd_partial :: bool
  rd_partialMap :: "string fset option"

definition Id :: "ResourceData \<Rightarrow> string" where
  "Id d = rd_id d"

definition SetId :: "string \<Rightarrow> ResourceData \<Rightarrow> ResourceData" where
  "SetId v d = d\<lparr>rd_id := v\<rparr>"

text \<open>\<^verbatim>\<open>d.Get(k)\<close> asserted to a \<^verbatim>\<open>string\<close> and to a \<^verbatim>\<open>schema.Set\<close> pointer.\<close>

definition GetString :: "ResourceData \<Rightarrow> string \<Rightarrow> string" where
  "GetString d k = rd_strings d k"

definition GetSet :: "ResourceData \<Rightarrow> string \<Rightarrow> string fset" where
  "GetSet d k = rd_sets d k"

text \<open>
  \<^verbatim>\<open>d.Set(k, v)\<close> with a string, and with a \<^verbatim>\<open>[]string\<close> for a set attribute, which
  is stored as the set of the slice's elements.
\<close>

definition SetString :: "string \<Rightarrow> string \<Rightarrow> ResourceData \<Rightarrow> ResourceData" where
  "SetString k v d = d\<lparr>rd_strings := (rd_strings d)(k := v)\<rparr>"

definition SetStrings :: "string \<Rightarrow> string list \<Rightarrow> ResourceData \<Rightarrow> ResourceData" where
  "SetStrings k vs d = d\<lparr>rd_sets := (rd_sets d)(k := fset_of_list vs)\<rparr>"

definition HasChange :: "ResourceData \<Rightarrow> string \<Rightarrow> bool" where
  "HasChange d k = rd_changed d k"

text \<open>
  \<^verbatim>\<open>d.Partial(on)\<close> switches partial mode, creating the map of partial keys when it is
  switched on and dropping it when it is switched off; \<^verbatim>\<open>d.SetPartial(k)\<close> records a
  key only in partial mode.
\<close>

definition Partial :: "bool \<Rightarrow> ResourceData \<Rightarrow> ResourceData" where
  "Partial on d =
     (if on
      then d\<lparr>rd_partial := True,
             rd_partialMap := (case rd_partialMap d of None \<Rightarrow> Some {||} | Some m \<Rightarrow> Some m)\<rparr>
      else d\<lparr>rd_partial := False, rd_partialMap := None\<rparr>)"

definition SetPartial :: "string \<Rightarrow> ResourceData \<Rightarrow> ResourceData" where
  "SetPartial k d =
     (if rd_partial d
      then d\<lparr>rd_partialMap := (case rd_partialMap d of None \<Rightarrow> None | Some m \<Rightarrow> Some (finsert k m))\<rparr>
      else d)"

subsection \<open>The Compute API\<close>

text \<open>
  \<^verbatim>\<open>computeBeta.ForwardingRule\<close> with the fields this file reads or writes; the others
  stay at their zero value. \<open>SelfLink\<close> is not set by Create.
\<close>

record ForwardingRule =
  BackendService :: string
  IPAddress :: string
  IPProtocol :: string
  Description :: string
  LoadBalancingScheme :: string
  Name :: string
  Network :: string
  NetworkTier :: string
  PortRange :: string
  Ports :: "string list"
  Subnetwork :: string
  Target :: string
  SelfLink :: string

datatype TargetReference = TargetReference (ref_Target: string)

datatype Operation = Operation string

text \<open>A parsed network or subnetwork field, as far as its \<^verbatim>\<open>RelativeLink()\<close> goes.\<close>

datatype FieldValue = FieldValue (RelativeLink: string)

text \<open>
  The calls a handler makes, in the order made: the four API methods with project, region
  and their last argument, and the two waits with the operation, the project and the
  activity.
\<close>

datatype call =
    ForwardingRules_Insert string string ForwardingRule
  | ForwardingRules_SetTarget string string string TargetReference
  | ForwardingRules_Get string string string
  | ForwardingRules_Delete string string string
  | SharedOperationWait Operation string string
  | OperationWait Operation string string

text \<open>
  What the handlers use and this file does not define: the functions of the package
  (\<^verbatim>\<open>ParseNetworkFieldValue\<close>, \<^verbatim>\<open>getRegion\<close>, \<^verbatim>\<open>ConvertSelfLinkToV1\<close>,
  \<^verbatim>\<open>handleNotFoundError\<close>, the operation waits), the answers of the API clients held by
  \<^verbatim>\<open>meta\<close> (a \<^verbatim>\<open>Config\<close>), the order in which \<^verbatim>\<open>List()\<close> lists a \<^verbatim>\<open>schema.Set\<close> and
  the \<^verbatim>\<open>%q\<close> quoting of \<^verbatim>\<open>fmt.Sprintf\<close>. They are parameters. An answer of the
  API and of a wait may depend on every call made before it.
\<close>

record env =
  ParseNetworkFieldValue :: "string \<Rightarrow> ResourceData \<Rightarrow> error + FieldValue"
  ParseSubnetworkFieldValue :: "string \<Rightarrow> ResourceData \<Rightarrow> error + FieldValue"
  getRegion :: "ResourceData \<Rightarrow> error + string"
  getProject :: "ResourceData \<Rightarrow> error + string"
  ConvertSelfLinkToV1 :: "string \<Rightarrow> string"
  handleNotFoundError :: "error \<Rightarrow> ResourceData \<Rightarrow> string \<Rightarrow> error option \<times> ResourceData"
  Insert_Do :: "call list \<Rightarrow> string \<Rightarrow> string \<Rightarrow> ForwardingRule \<Rightarrow> error + Operation"
  SetTarget_Do :: "call list \<Rightarrow> string \<Rightarrow> string \<Rightarrow> string \<Rightarrow> TargetReference \<Rightarrow> error + Operation"
  Get_Do :: "call list \<Rightarrow> string \<Rightarrow> string \<Rightarrow> string \<Rightarrow> error + ForwardingRule"
  Delete_Do :: "call list \<Rightarrow> string \<Rightarrow> string \<Rightarrow> string \<Rightarrow> error + Operation"
  computeSharedOperationWait :: "call list \<Rightarrow> Operation \<Rightarrow> string \<Rightarrow> string \<Rightarrow> error option"
  computeOperationWait :: "call list \<Rightarrow> Operation \<Rightarrow> string \<Rightarrow> string \<Rightarrow> error option"
  Set_List :: "string fset \<Rightarrow> string list"
  Sprintf_q :: "string \<Rightarrow> string"

type_synonym result = "error option \<times> ResourceData \<times> call list"

type_synonym handler = "env \<Rightarrow> ResourceData \<Rightarrow> call list \<Rightarrow> result"

subsection \<open>Read\<close>

definition resourceComputeForwardingRuleRead :: handler where
  "resourceComputeForwardingRuleRead config d cs =
     (case getRegion config d of
        Inl err \<Rightarrow> (Some err, d, cs)
      | Inr region \<Rightarrow>
     (case getProject config d of
        Inl err \<Rightarrow> (Some err, d, cs)
      | Inr project \<Rightarrow>
     (case Get_Do config cs project region (Id d) of
        Inl err \<Rightarrow>
          (case handleNotFoundError config err d
                  (''Forwarding Rule '' @ Sprintf_q config (GetString d ''name'')) of
             (e, d') \<Rightarrow> (e, d', cs @ [ForwardingRules_Get project region (Id d)]))
      | Inr frule \<Rightarrow>
          (None,
           (SetString ''self_link'' (ConvertSelfLinkToV1 config (SelfLink frule))
           (SetString ''ip_protocol'' (IPProtocol frule)
           (SetString ''ip_address'' (IPAddress frule)
           (SetString ''subnetwork'' (Subnetwork frule)
           (SetString ''region'' region
           (SetString ''project'' project
           (SetStrings ''ports'' (Ports frule)
           (SetString ''port_range'' (PortRange frule)
           (SetString ''network_tier'' (NetworkTier frule)
           (SetString ''network'' (Network frule)
           (SetString ''load_balancing_scheme'' (LoadBalancingScheme frule)
           (SetString ''description'' (Description frule)
           (SetString ''backend_service'' (ConvertSelfLinkToV1 config (BackendService frule))
           (SetString ''target'' (Target frule)
           (SetString ''name'' (Name frule) d))))))))))))))),
           cs @ [ForwardingRules_Get project region (Id d)]))))"

subsection \<open>Create\<close>

text \<open>The loop that copies the listed elements of the ports set into a fresh slice.\<close>

fun append_ports :: "string list \<Rightarrow> string list \<Rightarrow> string list" where
  "append_ports ports [] = ports"
| "append_ports ports (v # ps) = append_ports (ports @ [v]) ps"

definition create_frule :: "env \<Rightarrow> ResourceData \<Rightarrow> FieldValue \<Rightarrow> FieldValue \<Rightarrow> ForwardingRule" where
  "create_frule config d network subnetwork =
     (let ps = Set_List config (GetSet d ''ports'');
          ports = append_ports [] ps
      in \<lparr> BackendService = GetString d ''backend_service'',
           IPAddress = GetString d ''ip_address'',
           IPProtocol = GetString d ''ip_protocol'',
           Description = GetString d ''description'',
           LoadBalancingScheme = GetString d ''load_balancing_scheme'',
           Name = GetString d ''name'',
           Network = RelativeLink network,
           NetworkTier = GetString d ''network_tier'',
           PortRange = GetString d ''port_range'',
           Ports = ports,
           Subnetwork = RelativeLink subnetwork,
           Target = ConvertSelfLinkToV1 config (GetString d ''target''),
           SelfLink = [] \<rparr>)"

definition resourceComputeForwardingRuleCreate :: handler where
  "resourceComputeForwardingRuleCreate config d cs =
     (case ParseNetworkFieldValue config (GetString d ''network'') d of
        Inl err \<Rightarrow> (Some err, d, cs)
      | Inr network \<Rightarrow>
     (case ParseSubnetworkFieldValue config (GetString d ''subnetwork'') d of
        Inl err \<Rightarrow> (Some err, d, cs)
      | Inr subnetwork \<Rightarrow>
     (case getRegion config d of
        Inl err \<Rightarrow> (Some err, d, cs)
      | Inr region \<Rightarrow>
     (case getProject config d of
        Inl err \<Rightarrow> (Some err, d, cs)
      | Inr project \<Rightarrow>
     (let frule = create_frule config d network subnetwork;
          cs1 = cs @ [ForwardingRules_Insert project region frule]
      in case Insert_Do config cs project region frule of
           Inl err \<Rightarrow> (Some (Errorf ''Error creating ForwardingRule: '' err), d, cs1)
         | Inr op \<Rightarrow>
             (let d1 = SetId (Name frule) d;
                  cs2 = cs1 @ [SharedOperationWait op project ''Creating Fowarding Rule'']
              in case computeSharedOperationWait config cs1 op project
                        ''Creating Fowarding Rule'' of
                   Some err \<Rightarrow> (Some err, d1, cs2)
                 | None \<Rightarrow> resourceComputeForwardingRuleRead config d1 cs2))))))"

subsection \<open>Update\<close>

definition resourceComputeForwardingRuleUpdate :: handler where
  "resourceComputeForwardingRuleUpdate config d cs =
     (case getRegion config d of
        Inl err \<Rightarrow> (Some err, d, cs)
      | Inr region \<Rightarrow>
     (case getProject config d of
        Inl err \<Rightarrow> (Some err, d, cs)
      | Inr project \<Rightarrow>
     (let d1 = Partial True d
      in if HasChange d1 ''target''
         then
           (let target_name = GetString d1 ''target'';
                target_ref = TargetReference target_name;
                cs1 = cs @ [ForwardingRules_SetTarget project region (Id d1) target_ref]
            in case SetTarget_Do config cs project region (Id d1) target_ref of
                 Inl err \<Rightarrow> (Some (Errorf ''Error updating target: '' err), d1, cs1)
               | Inr op \<Rightarrow>
                   (let cs2 = cs1 @ [OperationWait op project ''Updating Forwarding Rule'']
                    in case computeOperationWait config cs1 op project
                              ''Updating Forwarding Rule'' of
                         Some err \<Rightarrow> (Some err, d1, cs2)
                       | None \<Rightarrow>
                           resourceComputeForwardingRuleRead config
                             (Partial False (SetPartial ''target'' d1)) cs2))
         else resourceComputeForwardingRuleRead config (Partial False d1) cs)))"

subsection \<open>Delete\<close>

definition resourceComputeForwardingRuleDelete :: handler where
  "resourceComputeForwardingRuleDelete config d cs =
     (case getRegion config d of
        Inl err \<Rightarrow> (Some err, d, cs)
      | Inr region \<Rightarrow>
     (case getProject config d of
        Inl err \<Rightarrow> (Some err, d, cs)
      | Inr project \<Rightarrow>
     (let cs1 = cs @ [ForwardingRules_Delete project region (Id d)]
      in case Delete_Do config cs project region (Id d) of
           Inl err \<Rightarrow> (Some (Errorf ''Error deleting ForwardingRule: '' err), d, cs1)
         | Inr op \<Rightarrow>
             (let cs2 = cs1 @ [OperationWait op project ''Deleting Forwarding Rule'']
              in case computeOperationWait config cs1 op project
                        ''Deleting Forwarding Rule'' of
                   Some err \<Rightarrow> (Some err, d, cs2)
                 | None \<Rightarrow> (None, SetId [] d, cs2)))))"

subsection \<open>The resource definition\<close>

text \<open>
  \<^verbatim>\<open>schema.Resource\<close>: a handler is a function value that may be \<^verbatim>\<open>nil\<close>. The literal
  sets the four handlers, the importer and the schema; \<^verbatim>\<open>Exists\<close>, the remaining
  handler of the SDK's resource, is left out by the literal and so is \<^verbatim>\<open>nil\<close>. The
  schema map is the list of the entries of its literal, whose keys are distinct.
\<close>

record Resource =
  Create :: "handler option"
  Read :: "handler option"
  Update :: "handler option"
  Delete :: "handler option"
  Exists :: "handler option"
  Importer :: "StateFunc option"
  Schema :: "(string \<times> Schema) list"

definition forwardingRuleSchema :: "(string \<times> Schema) list" where
  "forwardingRuleSchema =
     [(''name'', (zeroSchema TypeString)\<lparr>Required := True, ForceNew := True\<rparr>),
      (''target'', (zeroSchema TypeString)\<lparr>Optional := True,
         DiffSuppressFunc := Some compareSelfLinkRelativePaths\<rparr>),
      (''backend_service'', (zeroSchema TypeString)\<lparr>Optional := True, ForceNew := True\<rparr>),
      (''description'', (zeroSchema TypeString)\<lparr>Optional := True, ForceNew := True\<rparr>),
      (''ip_address'', (zeroSchema TypeString)\<lparr>Optional := True, ForceNew := True,
         Computed := True\<rparr>),
      (''ip_protocol'', (zeroSchema TypeString)\<lparr>Optional := True, ForceNew := True,
         Computed := True, DiffSuppressFunc := Some caseDiffSuppress\<rparr>),
      (''load_balancing_scheme'', (zeroSchema TypeString)\<lparr>Optional := True, ForceNew := True,
         Default := Some ''EXTERNAL''\<rparr>),
      (''network'', (zeroSchema TypeString)\<lparr>Optional := True, ForceNew := True,
         Computed := True, DiffSuppressFunc := Some compareSelfLinkOrResourceName\<rparr>),
      (''network_tier'', (zeroSchema TypeString)\<lparr>Optional := True, ForceNew := True,
         Computed := True,
         ValidateFunc := Some (StringInSlice [''PREMIUM'', ''STANDARD''] False)\<rparr>),
      (''port_range'', (zeroSchema TypeString)\<lparr>Optional := True, ForceNew := True,
         DiffSuppressFunc := Some portRangeDiffSuppress\<rparr>),
      (''ports'', (zeroSchema TypeSet)\<lparr>Elem := Some TypeString, Optional := True,
         ForceNew := True, SetFunc := Some HashString, MaxItems := 5\<rparr>),
      (''project'', (zeroSchema TypeString)\<lparr>Optional := True, ForceNew := True,
         Computed := True\<rparr>),
      (''region'', (zeroSchema TypeString)\<lparr>Optional := True, ForceNew := True,
         Computed := True\<rparr>),
      (''self_link'', (zeroSchema TypeString)\<lparr>Computed := True\<rparr>),
      (''subnetwork'', (zeroSchema TypeString)\<lparr>Optional := True, ForceNew := True,
         Computed := True, DiffSuppressFunc := Some compareSelfLinkOrResourceName\<rparr>)]"

definition resourceComputeForwardingRule :: Resource where
  "resourceComputeForwardingRule =
     \<lparr> Create = Some resourceComputeForwardingRuleCreate,
       Read = Some resourceComputeForwardingRuleRead,
       Update = Some resourceComputeForwardingRuleUpdate,
       Delete = Some resourceComputeForwardingRuleDelete,
       Exists = None,
       Importer = Some ImportStatePassthrough,
       Schema = forwardingRuleSchema \<rparr>"

section \<open>Notions used to state the properties\<close>

text \<open>
  The calls a handler adds to the calls made before it, and the calls that change the
  remote resource (the waits and \<^verbatim>\<open>Get\<close> only read).
\<close>

definition new_calls :: "call list \<Rightarrow> result \<Rightarrow> call list" where
  "new_calls cs r = drop (length cs) (snd (snd r))"

fun mutating :: "call \<Rightarrow> bool" where
  "mutating (ForwardingRules_Insert p r f) = True"
| "mutating (ForwardingRules_SetTarget p r i t) = True"
| "mutating (ForwardingRules_Delete p r i) = True"
| "mutating (ForwardingRules_Get p r i) = False"
| "mutating (SharedOperationWait op p a) = False"
| "mutating (OperationWait op p a) = False"

text \<open>
  The resource data agrees with a forwarding rule fetched from the API: every attribute
  that Read writes holds the field of the rule, \<^verbatim>\<open>backend_service\<close> and
  \<^verbatim>\<open>self_link\<close> converted to v1 self-links, the ports as the set of the listed ports,
  and project and region as resolved.
\<close>

definition reconciled :: "env \<Rightarrow> ForwardingRule \<Rightarrow> string \<Rightarrow> string \<Rightarrow> ResourceData \<Rightarrow> bool" where
  "reconciled config frule project region d =
     (GetString d ''name'' = Name frule
      \<and> GetString d ''target'' = Target frule
      \<and> GetString d ''backend_service'' = ConvertSelfLinkToV1 config (BackendService frule)
      \<and> GetString d ''description'' = Description frule
      \<and> GetString d ''load_balancing_scheme'' = LoadBalancingScheme frule
      \<and> GetString d ''network'' = Network frule
      \<and> GetString d ''network_tier'' = NetworkTier frule
      \<and> GetString d ''port_range'' = PortRange frule
      \<and> GetSet d ''ports'' = fset_of_list (Ports frule)
      \<and> GetString d ''project'' = project
      \<and> GetString d ''region'' = region
      \<and> GetString d ''subnetwork'' = Subnetwork frule
      \<and> GetString d ''ip_address'' = IPAddress frule
      \<and> GetString d ''ip_protocol'' = IPProtocol frule
      \<and> GetString d ''self_link'' = ConvertSelfLinkToV1 config (SelfLink frule))"

text \<open>
  Delete goes through: region and project resolve, the API accepts the delete call and the
  wait for its operation ends without an error.
\<close>

definition delete_succeeds :: "env \<Rightarrow> ResourceData \<Rightarrow> call list \<Rightarrow> bool" where
  "delete_succeeds config d cs =
     (case getRegion config d of
        Inl err \<Rightarrow> False
      | Inr region \<Rightarrow>
     (case getProject config d of
        Inl err \<Rightarrow> False
      | Inr project \<Rightarrow>
     (case Delete_Do config cs project region (Id d) of
        Inl err \<Rightarrow> False
      | Inr op \<Rightarrow>
          computeOperationWait config (cs @ [ForwardingRules_Delete project region (Id d)])
            op project ''Deleting Forwarding Rule'' = None)))"

text \<open>
  The SDK checks a configuration against the schema before a handler runs. Of that check,
  the bound \<^verbatim>\<open>MaxItems\<close>: a set attribute whose schema has a positive
  \<^verbatim>\<open>MaxItems\<close> has at most that many elements (\<^verbatim>\<open>Len()\<close>, the number of
  elements \<^verbatim>\<open>List()\<close> returns).
\<close>

definition validateMaxItems :: "env \<Rightarrow> (string \<times> Schema) list \<Rightarrow> ResourceData \<Rightarrow> bool" where
  "validateMaxItems config m d =
     list_all (\<lambda>(k, s). Type s = TypeSet \<and> 0 < MaxItems s
                 \<longrightarrow> length (Set_List config (GetSet d k)) \<le> MaxItems s) m"

subsection \<open>A concrete environment\<close>

text \<open>
  A project \<^verbatim>\<open>p\<close> and region \<^verbatim>\<open>r\<close> in which every call is accepted and the
  API holds the rule \<open>remote_rule\<close>; variants in which one step fails; and resource data
  for a rule named \<^verbatim>\<open>rule\<close> with two ports, before creation (no ID), after it with
  a changed target, and after it with nothing changed.
\<close>

definition remote_rule :: ForwardingRule where
  "remote_rule =
     \<lparr> BackendService = [], IPAddress = ''10.0.0.7'', IPProtocol = ''TCP'',
       Description = ''web'', LoadBalancingScheme = ''EXTERNAL'', Name = ''rule'',
       Network = ''projects/p/global/networks/default'', NetworkTier = ''PREMIUM'',
       PortRange = ''80-80'', Ports = [''80'', ''443''], Subnetwork = [], Target = ''pool'',
       SelfLink = ''rule-link'' \<rparr>"

definition list_ports :: "string fset \<Rightarrow> string list" where
  "list_ports s = filter (\<lambda>p. p |\<in>| s) [''443'', ''80'', ''8080'']"

definition env_ok :: env where
  "env_ok =
     \<lparr> ParseNetworkFieldValue = (\<lambda>s d. Inr (FieldValue (''global/networks/'' @ s))),
       ParseSubnetworkFieldValue = (\<lambda>s d. Inr (FieldValue (''subnetworks/'' @ s))),
       getRegion = (\<lambda>d. Inr ''r''),
       getProject = (\<lambda>d. Inr ''p''),
       ConvertSelfLinkToV1 = (\<lambda>s. s),
       handleNotFoundError = (\<lambda>err d s. (Some err, d)),
       Insert_Do = (\<lambda>cs p r f. Inr (Operation ''insert'')),
       SetTarget_Do = (\<lambda>cs p r i t. Inr (Operation ''set-target'')),
       Get_Do = (\<lambda>cs p r i. Inr remote_rule),
       Delete_Do = (\<lambda>cs p r i. Inr (Operation ''delete'')),
       computeSharedOperationWait = (\<lambda>cs op p a. None),
       computeOperationWait = (\<lambda>cs op p a. None),
       Set_List = list_ports,
       Sprintf_q = (\<lambda>s. s) \<rparr>"

definition env_region_fails :: env where
  "env_region_fails = env_ok\<lparr>getRegion := (\<lambda>d. Inl (Error ''no region''))\<rparr>"

definition env_project_fails :: env where
  "env_project_fails = env_ok\<lparr>getProject := (\<lambda>d. Inl (Error ''no project''))\<rparr>"

definition env_insert_fails :: env where
  "env_insert_fails = env_ok\<lparr>Insert_Do := (\<lambda>cs p r f. Inl (Error ''quota''))\<rparr>"

definition env_delete_fails :: env where
  "env_delete_fails = env_ok\<lparr>Delete_Do := (\<lambda>cs p r i. Inl (Error ''forbidden''))\<rparr>"

definition env_wait_fails :: env where
  "env_wait_fails = env_ok\<lparr>computeSharedOperationWait := (\<lambda>cs op p a. Some (Error ''timeout'')),
     computeOperationWait := (\<lambda>cs op p a. Some (Error ''timeout''))\<rparr>"

text \<open>
  The rule is gone when it is fetched: \<^verbatim>\<open>Get\<close> answers 404, and
  \<^verbatim>\<open>handleNotFoundError\<close> takes that answer for a resource that no longer exists,
  clears the ID and returns \<^verbatim>\<open>nil\<close>; any other error it returns, wrapped.
\<close>

definition env_not_found :: env where
  "env_not_found =
     env_ok\<lparr>Get_Do := (\<lambda>cs p r i. Inl (Error ''googleapi: Error 404: notFound'')),
       handleNotFoundError := (\<lambda>err d resource.
         if message err = ''googleapi: Error 404: notFound''
         then (None, SetId [] d)
         else (Some (Error (''Error reading '' @ resource @ '': '' @ message err)), d))\<rparr>"

definition config_data :: ResourceData where
  "config_data =
     \<lparr> rd_id = [],
       rd_strings = (\<lambda>k. [])(''name'' := ''rule'', ''target'' := ''pool'', ''network'' := ''default''),
       rd_sets = (\<lambda>k. {||})(''ports'' := {|''80'', ''443''|}),
       rd_changed = (\<lambda>k. k = ''target''),
       rd_partial = False,
       rd_partialMap = None \<rparr>"

definition changed_data :: ResourceData where
  "changed_data = config_data\<lparr>rd_id := ''rule''\<rparr>"

definition unchanged_data :: ResourceData where
  "unchanged_data = config_data\<lparr>rd_id := ''rule'', rd_changed := (\<lambda>k. False)\<rparr>"

section \<open>Properties\<close>

subsection \<open>Auxiliary facts\<close>

lemma append_ports_eq: "append_ports ports ps = ports @ ps"
  by (induction ps arbitrary: ports) simp_all

text \<open>
  A Read whose \<^verbatim>\<open>Get\<close> succeeds returns \<^verbatim>\<open>nil\<close>, adds that one call and leaves
  resource data that agrees with the fetched rule; the ID is not touched.
\<close>

lemma Read_success:
  assumes "getRegion config d = Inr region"
    and "getProject config d = Inr project"
    and "Get_Do config cs project region (Id d) = Inr frule"
  shows "\<exists>d'. resourceComputeForwardingRuleRead config d cs =
           (None, d', cs @ [ForwardingRules_Get project region (Id d)])
         \<and> reconciled config frule project region d' \<and> Id d' = Id d"
  using assms
  by (simp add: resourceComputeForwardingRuleRead_def reconciled_def GetString_def GetSet_def
      SetString_def SetStrings_def Id_def)

text \<open>
  Read adds no call that changes the remote resource.
\<close>

lemma Read_extends:
  "\<exists>xs. snd (snd (resourceComputeForwardingRuleRead config d cs)) = cs @ xs \<and> \<not> list_ex mutating xs"
  by (auto simp: resourceComputeForwardingRuleRead_def split: sum.splits prod.splits)

lemma Partial_True_reads [simp]:
  "HasChange (Partial True d) k = HasChange d k"
  "GetString (Partial True d) k = GetString d k"
  "Id (Partial True d) = Id d"
  by (simp_all add: Partial_def HasChange_def GetString_def Id_def)

text \<open>
  A Read whose \<^verbatim>\<open>Get\<close> fails returns what \<^verbatim>\<open>handleNotFoundError\<close> makes of
  the error.
\<close>

lemma Read_failure:
  assumes "getRegion config d = Inr region"
    and "getProject config d = Inr project"
    and "Get_Do config cs project region (Id d) = Inl err"
  shows "resourceComputeForwardingRuleRead config d cs =
           (case handleNotFoundError config err d
                   (''Forwarding Rule '' @ Sprintf_q config (GetString d ''name'')) of
              (e, d') \<Rightarrow> (e, d', cs @ [ForwardingRules_Get project region (Id d)]))"
  using assms by (simp add: resourceComputeForwardingRuleRead_def)

text \<open>
  Update with an unresolved region or project, and with both resolved.
\<close>

lemma Update_unresolved:
  "getRegion config d = Inl err \<Longrightarrow>
     resourceComputeForwardingRuleUpdate config d cs = (Some err, d, cs)"
  "getRegion config d = Inr region \<Longrightarrow> getProject config d = Inl err \<Longrightarrow>
     resourceComputeForwardingRuleUpdate config d cs = (Some err, d, cs)"
  by (simp_all add: resourceComputeForwardingRuleUpdate_def)

lemma Update_resolved:
  assumes "getRegion config d = Inr region"
    and "getProject config d = Inr project"
  shows "(HasChange d ''target'' \<longrightarrow>
           (\<exists>rest. new_calls cs (resourceComputeForwardingRuleUpdate config d cs) =
              ForwardingRules_SetTarget project region (Id d)
                (TargetReference (GetString d ''target'')) # rest
            \<and> \<not> list_ex mutating rest))
       \<and> (\<not> HasChange d ''target'' \<longrightarrow>
            resourceComputeForwardingRuleUpdate config d cs =
              resourceComputeForwardingRuleRead config (Partial False (Partial True d)) cs
            \<and> \<not> list_ex mutating (new_calls cs (resourceComputeForwardingRuleUpdate config d cs)))"
proof (intro conjI impI)
  assume ch: "HasChange d ''target''"
  let ?t = "TargetReference (GetString d ''target'')"
  let ?cs1 = "cs @ [ForwardingRules_SetTarget project region (Id d) ?t]"
  show "\<exists>rest. new_calls cs (resourceComputeForwardingRuleUpdate config d cs) =
              ForwardingRules_SetTarget project region (Id d) ?t # rest
            \<and> \<not> list_ex mutating rest"
  proof (cases "SetTarget_Do config cs project region (Id d) ?t")
    case (Inl e)
    with assms ch show ?thesis
      by (simp add: resourceComputeForwardingRuleUpdate_def new_calls_def Let_def)
  next
    case (Inr op)
    let ?cs2 = "?cs1 @ [OperationWait op project ''Updating Forwarding Rule'']"
    show ?thesis
    proof (cases "computeOperationWait config ?cs1 op project ''Updating Forwarding Rule''")
      case (Some e)
      with Inr assms ch show ?thesis
        by (simp add: resourceComputeForwardingRuleUpdate_def new_calls_def Let_def)
    next
      case None
      let ?d2 = "Partial False (SetPartial ''target'' (Partial True d))"
      obtain xs where xs:
        "snd (snd (resourceComputeForwardingRuleRead config ?d2 ?cs2)) = ?cs2 @ xs"
        "\<not> list_ex mutating xs"
        using Read_extends by blast
      from None Inr assms ch
      have "resourceComputeForwardingRuleUpdate config d cs =
              resourceComputeForwardingRuleRead config ?d2 ?cs2"
        by (simp add: resourceComputeForwardingRuleUpdate_def Let_def)
      with xs show ?thesis
        by (simp add: new_calls_def)
    qed
  qed
next
  assume nch: "\<not> HasChange d ''target''"
  with assms show u: "resourceComputeForwardingRuleUpdate config d cs =
      resourceComputeForwardingRuleRead config (Partial False (Partial True d)) cs"
    by (simp add: resourceComputeForwardingRuleUpdate_def Let_def)
  obtain xs where
    "snd (snd (resourceComputeForwardingRuleRead config (Partial False (Partial True d)) cs)) = cs @ xs"
    "\<not> list_ex mutating xs"
    using Read_extends by blast
  with u show "\<not> list_ex mutating (new_calls cs (resourceComputeForwardingRuleUpdate config d cs))"
    by (simp add: new_calls_def)
qed

text \<open>
  The successful paths of Create and Update end in Read.
\<close>

lemma Create_handoff:
  "ParseNetworkFieldValue config (GetString d ''network'') d = Inr network
      \<and> ParseSubnetworkFieldValue config (GetString d ''subnetwork'') d = Inr subnetwork
      \<and> getRegion config d = Inr region
      \<and> getProject config d = Inr project
      \<and> Insert_Do config cs project region (create_frule config d network subnetwork) = Inr op
      \<and> computeSharedOperationWait config
            (cs @ [ForwardingRules_Insert project region (create_frule config d network subnetwork)])
            op project ''Creating Fowarding Rule'' = None
    \<Longrightarrow> resourceComputeForwardingRuleCreate config d cs =
          resourceComputeForwardingRuleRead config (SetId (GetString d ''name'') d)
            (cs @ [ForwardingRules_Insert project region (create_frule config d network subnetwork),
              SharedOperationWait op project ''Creating Fowarding Rule''])"
proof -
  assume "ParseNetworkFieldValue config (GetString d ''network'') d = Inr network
      \<and> ParseSubnetworkFieldValue config (GetString d ''subnetwork'') d = Inr subnetwork
      \<and> getRegion config d = Inr region
      \<and> getProject config d = Inr project
      \<and> Insert_Do config cs project region (create_frule config d network subnetwork) = Inr op
      \<and> computeSharedOperationWait config
            (cs @ [ForwardingRules_Insert project region (create_frule config d network subnetwork)])
            op project ''Creating Fowarding Rule'' = None"
  moreover have "Name (create_frule config d network subnetwork) = GetString d ''name''"
    by (simp add: create_frule_def)
  ultimately show ?thesis
    by (simp add: resourceComputeForwardingRuleCreate_def Let_def)
qed

lemma Update_handoff_changed:
  "getRegion config d = Inr region
      \<and> getProject config d = Inr project
      \<and> HasChange d ''target''
      \<and> SetTarget_Do config cs project region (Id d) (TargetReference (GetString d ''target'')) = Inr op
      \<and> computeOperationWait config
            (cs @ [ForwardingRules_SetTarget project region (Id d) (TargetReference (GetString d ''target''))])
            op project ''Updating Forwarding Rule'' = None
    \<Longrightarrow> resourceComputeForwardingRuleUpdate config d cs =
          resourceComputeForwardingRuleRead config (Partial False (SetPartial ''target'' (Partial True d)))
            (cs @ [ForwardingRules_SetTarget project region (Id d) (TargetReference (GetString d ''target'')),
              OperationWait op project ''Updating Forwarding Rule''])"
  by (simp add: resourceComputeForwardingRuleUpdate_def Let_def)

lemma Update_handoff_unchanged:
  "getRegion config d = Inr region
      \<and> getProject config d = Inr project
      \<and> \<not> HasChange d ''target''
    \<Longrightarrow> resourceComputeForwardingRuleUpdate config d cs =
          resourceComputeForwardingRuleRead config (Partial False (Partial True d)) cs"
  by (simp add: resourceComputeForwardingRuleUpdate_def Let_def)

text \<open>
  Create makes no call, or its first call is the insert of the rule built from the
  configuration and no later call changes the remote resource.
\<close>

lemma Create_calls:
  "new_calls cs (resourceComputeForwardingRuleCreate config d cs) = []
   \<or> (\<exists>network subnetwork region project rest.
         ParseNetworkFieldValue config (GetString d ''network'') d = Inr network
       \<and> ParseSubnetworkFieldValue config (GetString d ''subnetwork'') d = Inr subnetwork
       \<and> getRegion config d = Inr region
       \<and> getProject config d = Inr project
       \<and> new_calls cs (resourceComputeForwardingRuleCreate config d cs) =
           ForwardingRules_Insert project region (create_frule config d network subnetwork) # rest
       \<and> \<not> list_ex mutating rest)"
proof (cases "ParseNetworkFieldValue config (GetString d ''network'') d")
  case (Inl e) then show ?thesis
    by (simp add: resourceComputeForwardingRuleCreate_def new_calls_def)
next
  case network: (Inr network)
  show ?thesis
  proof (cases "ParseSubnetworkFieldValue config (GetString d ''subnetwork'') d")
    case (Inl e) with network show ?thesis
      by (simp add: resourceComputeForwardingRuleCreate_def new_calls_def)
  next
    case subnetwork: (Inr subnetwork)
    show ?thesis
    proof (cases "getRegion config d")
      case (Inl e) with network subnetwork show ?thesis
        by (simp add: resourceComputeForwardingRuleCreate_def new_calls_def)
    next
      case region: (Inr region)
      show ?thesis
      proof (cases "getProject config d")
        case (Inl e) with network subnetwork region show ?thesis
          by (simp add: resourceComputeForwardingRuleCreate_def new_calls_def)
      next
        case project: (Inr project)
        let ?f = "create_frule config d network subnetwork"
        let ?cs1 = "cs @ [ForwardingRules_Insert project region ?f]"
        show ?thesis
        proof (cases "Insert_Do config cs project region ?f")
          case (Inl e) with network subnetwork region project show ?thesis
            by (simp add: resourceComputeForwardingRuleCreate_def new_calls_def Let_def)
        next
          case op: (Inr op)
          let ?cs2 = "?cs1 @ [SharedOperationWait op project ''Creating Fowarding Rule'']"
          show ?thesis
          proof (cases "computeSharedOperationWait config ?cs1 op project ''Creating Fowarding Rule''")
            case (Some e) with network subnetwork region project op show ?thesis
              by (simp add: resourceComputeForwardingRuleCreate_def new_calls_def Let_def)
          next
            case None
            obtain xs where xs: "snd (snd (resourceComputeForwardingRuleRead config (SetId (Name ?f) d) ?cs2)) = ?cs2 @ xs"
              "\<not> list_ex mutating xs"
              using Read_extends by blast
            from None network subnetwork region project op
            have "resourceComputeForwardingRuleCreate config d cs =
                    resourceComputeForwardingRuleRead config (SetId (Name ?f) d) ?cs2"
              by (simp add: resourceComputeForwardingRuleCreate_def Let_def)
            with xs network subnetwork region project show ?thesis
              by (simp add: new_calls_def)
          qed
        qed
      qed
    qed
  qed
qed

lemma Create_env_ok:
  "new_calls [] (resourceComputeForwardingRuleCreate env_ok config_data []) =
     [ForwardingRules_Insert ''p'' ''r''
        (create_frule env_ok config_data (FieldValue ''global/networks/default'') (FieldValue ''subnetworks/'')),
      SharedOperationWait (Operation ''insert'') ''p'' ''Creating Fowarding Rule'',
      ForwardingRules_Get ''p'' ''r'' ''rule'']"
  by (simp add: resourceComputeForwardingRuleCreate_def resourceComputeForwardingRuleRead_def
      new_calls_def env_ok_def config_data_def GetString_def Let_def create_frule_def SetId_def Id_def)

lemma validateMaxItems_ports:
  "validateMaxItems config (Schema resourceComputeForwardingRule) d
     \<longleftrightarrow> length (Set_List config (GetSet d ''ports'')) \<le> 5"
  by (simp add: validateMaxItems_def resourceComputeForwardingRule_def forwardingRuleSchema_def
      zeroSchema_def)

subsection \<open>The resource definition\<close>

text \<open>
  C1. The resource definition returned by \<^verbatim>\<open>resourceComputeForwardingRule\<close> binds Create,
  Read, Update and Delete to the four handlers of this file, has the passthrough importer,
  and binds no other handler.
\<close>

theorem resource_binds_crud_handlers:
  "Create resourceComputeForwardingRule = Some resourceComputeForwardingRuleCreate
   \<and> Read resourceComputeForwardingRule = Some resourceComputeForwardingRuleRead
   \<and> Update resourceComputeForwardingRule = Some resourceComputeForwardingRuleUpdate
   \<and> Delete resourceComputeForwardingRule = Some resourceComputeForwardingRuleDelete
   \<and> Exists resourceComputeForwardingRule = None
   \<and> Importer resourceComputeForwardingRule = Some ImportStatePassthrough"
  by (simp add: resourceComputeForwardingRule_def)

subsection \<open>Create builds the insert request from the configuration\<close>

text \<open>
  C2. Whatever the configuration, a rule that Create passes to
  \<^verbatim>\<open>ForwardingRules.Insert\<close> has name, description, backend service, IP address, IP
  protocol, load-balancing scheme, network tier and port range equal to the configured
  attributes, its ports are the listed elements of the ports set, its network and
  subnetwork are the relative links of the parsed configuration values, and its target is
  the configured target converted to a v1 self-link. The call goes to the resolved project
  and region.
\<close>

theorem create_insert_request:
  assumes "ForwardingRules_Insert project region frule
             \<in> set (new_calls cs (resourceComputeForwardingRuleCreate config d cs))"
  shows "Name frule = GetString d ''name''
       \<and> Description frule = GetString d ''description''
       \<and> BackendService frule = GetString d ''backend_service''
       \<and> IPAddress frule = GetString d ''ip_address''
       \<and> IPProtocol frule = GetString d ''ip_protocol''
       \<and> LoadBalancingScheme frule = GetString d ''load_balancing_scheme''
       \<and> NetworkTier frule = GetString d ''network_tier''
       \<and> PortRange frule = GetString d ''port_range''
       \<and> Ports frule = Set_List config (GetSet d ''ports'')
       \<and> (\<exists>network. ParseNetworkFieldValue config (GetString d ''network'') d = Inr network
             \<and> Network frule = RelativeLink network)
       \<and> (\<exists>subnetwork. ParseSubnetworkFieldValue config (GetString d ''subnetwork'') d = Inr subnetwork
             \<and> Subnetwork frule = RelativeLink subnetwork)
       \<and> Target frule = ConvertSelfLinkToV1 config (GetString d ''target'')
       \<and> getProject config d = Inr project
       \<and> getRegion config d = Inr region"
proof -
  from assms Create_calls [of cs config d]
  obtain network subnetwork region' project' rest where
    r: "ParseNetworkFieldValue config (GetString d ''network'') d = Inr network"
       "ParseSubnetworkFieldValue config (GetString d ''subnetwork'') d = Inr subnetwork"
       "getRegion config d = Inr region'" "getProject config d = Inr project'"
       "new_calls cs (resourceComputeForwardingRuleCreate config d cs) =
           ForwardingRules_Insert project' region' (create_frule config d network subnetwork) # rest"
       "\<not> list_ex mutating rest"
    by auto
  from assms r(5,6) have "ForwardingRules_Insert project region frule =
      ForwardingRules_Insert project' region' (create_frule config d network subnetwork)"
    by (auto simp: list_ex_iff)
  then have "project = project'" "region = region'"
    "frule = create_frule config d network subnetwork" by simp_all
  with r(1-4) show ?thesis
    by (simp add: create_frule_def append_ports_eq)
qed

text \<open>
  In the concrete environment Create does insert, and the rule carries the name
  \<^verbatim>\<open>rule\<close>, both ports and the network link.
\<close>

theorem create_insert_request_witness:
  "ForwardingRules_Insert ''p'' ''r''
      (create_frule env_ok config_data (FieldValue ''global/networks/default'') (FieldValue ''subnetworks/''))
     \<in> set (new_calls [] (resourceComputeForwardingRuleCreate env_ok config_data []))
   \<and> Name (create_frule env_ok config_data (FieldValue ''global/networks/default'') (FieldValue ''subnetworks/'')) = ''rule''
   \<and> Ports (create_frule env_ok config_data (FieldValue ''global/networks/default'') (FieldValue ''subnetworks/'')) = [''443'', ''80'']
   \<and> Network (create_frule env_ok config_data (FieldValue ''global/networks/default'') (FieldValue ''subnetworks/'')) = ''global/networks/default''"
proof -
  have h: "ForwardingRules_Insert ''p'' ''r''
      (create_frule env_ok config_data (FieldValue ''global/networks/default'') (FieldValue ''subnetworks/''))
     \<in> set (new_calls [] (resourceComputeForwardingRuleCreate env_ok config_data []))"
    by (simp add: Create_env_ok)
  from create_insert_request [OF h] h show ?thesis
    by (simp add: env_ok_def config_data_def GetString_def GetSet_def list_ports_def)
qed

subsection \<open>Read reconciles the remote state\<close>

text \<open>
  C3. When region and project resolve and the \<^verbatim>\<open>Get\<close> call succeeds, Read returns
  \<^verbatim>\<open>nil\<close> and afterwards name, target, backend_service, description,
  load_balancing_scheme, network, network_tier, port_range, ports, subnetwork, ip_address,
  ip_protocol and self_link hold the fields of the fetched rule (backend_service and
  self_link converted to v1 self-links, ports as the set of the fetched ports), and project
  and region hold the resolved project and region.
\<close>

theorem read_reconciles_remote_state:
  assumes "getRegion config d = Inr region"
    and "getProject config d = Inr project"
    and "Get_Do config cs project region (Id d) = Inr frule"
  shows "\<exists>d' cs'. resourceComputeForwardingRuleRead config d cs = (None, d', cs')
       \<and> GetString d' ''name'' = Name frule
       \<and> GetString d' ''target'' = Target frule
       \<and> GetString d' ''backend_service'' = ConvertSelfLinkToV1 config (BackendService frule)
       \<and> GetString d' ''description'' = Description frule
       \<and> GetString d' ''load_balancing_scheme'' = LoadBalancingScheme frule
       \<and> GetString d' ''network'' = Network frule
       \<and> GetString d' ''network_tier'' = NetworkTier frule
       \<and> GetString d' ''port_range'' = PortRange frule
       \<and> GetSet d' ''ports'' = fset_of_list (Ports frule)
       \<and> GetString d' ''subnetwork'' = Subnetwork frule
       \<and> GetString d' ''ip_address'' = IPAddress frule
       \<and> GetString d' ''ip_protocol'' = IPProtocol frule
       \<and> GetString d' ''self_link'' = ConvertSelfLinkToV1 config (SelfLink frule)
       \<and> GetString d' ''project'' = project
       \<and> GetString d' ''region'' = region"
proof -
  from Read_success [OF assms] obtain d' where
    "resourceComputeForwardingRuleRead config d cs =
       (None, d', cs @ [ForwardingRules_Get project region (Id d)])"
    "reconciled config frule project region d'"
    by blast
  then show ?thesis
    by (simp add: reconciled_def)
qed

text \<open>
  Reading the rule of the concrete environment.
\<close>

theorem read_reconciles_remote_state_witness:
  "\<exists>d' cs'. resourceComputeForwardingRuleRead env_ok changed_data [] = (None, d', cs')
     \<and> GetString d' ''name'' = ''rule''
     \<and> GetString d' ''ip_address'' = ''10.0.0.7''
     \<and> GetSet d' ''ports'' = {|''443'', ''80''|}
     \<and> GetString d' ''self_link'' = ''rule-link''
     \<and> GetString d' ''project'' = ''p''
     \<and> GetString d' ''region'' = ''r''"
proof -
  have r: "getRegion env_ok changed_data = Inr ''r''"
    and p: "getProject env_ok changed_data = Inr ''p''"
    and g: "Get_Do env_ok [] ''p'' ''r'' (Id changed_data) = Inr remote_rule"
    by (simp_all add: env_ok_def)
  from read_reconciles_remote_state [OF r p g] show ?thesis
    by (auto simp: remote_rule_def env_ok_def)
qed

subsection \<open>Update sets the target when it has changed\<close>

text \<open>
  C4, as stated, asks for a \<^verbatim>\<open>SetTarget\<close> call whenever the target has changed.
  Update resolves region and project first and returns on an error there: with a changed
  target and a region that does not resolve it makes no call at all.
\<close>

theorem update_region_failure_counterexample:
  "HasChange changed_data ''target''
   \<and> new_calls [] (resourceComputeForwardingRuleUpdate env_region_fails changed_data []) = []"
  by (simp add: resourceComputeForwardingRuleUpdate_def env_region_fails_def env_ok_def
      changed_data_def config_data_def HasChange_def new_calls_def)

text \<open>
  C4, amended. When the region or the project does not resolve, Update returns that
  error, makes no call and leaves the resource data as it was, whether or not the target
  has changed. When both resolve: if the target has changed, the first call of Update is
  \<^verbatim>\<open>SetTarget\<close> for the resource's ID, carrying the newly configured target, and no
  later call changes the remote resource; if the target has not changed, Update is the
  Read of the resource with no call made before it, and makes no call that changes the
  remote resource. And a \<^verbatim>\<open>SetTarget\<close> call that Update makes is made only with a
  changed target, with region and project resolved, for the resource's ID and with the
  newly configured target.
\<close>

theorem update_set_target_iff_changed:
  "(getRegion config d = Inl err \<longrightarrow>
      resourceComputeForwardingRuleUpdate config d cs = (Some err, d, cs))
   \<and> (getRegion config d = Inr region \<and> getProject config d = Inl err \<longrightarrow>
      resourceComputeForwardingRuleUpdate config d cs = (Some err, d, cs))
   \<and> (getRegion config d = Inr region \<and> getProject config d = Inr project
        \<and> HasChange d ''target'' \<longrightarrow>
      (\<exists>rest. new_calls cs (resourceComputeForwardingRuleUpdate config d cs) =
          ForwardingRules_SetTarget project region (Id d)
            (TargetReference (GetString d ''target'')) # rest
        \<and> \<not> list_ex mutating rest))
   \<and> (getRegion config d = Inr region \<and> getProject config d = Inr project
        \<and> \<not> HasChange d ''target'' \<longrightarrow>
      resourceComputeForwardingRuleUpdate config d cs =
        resourceComputeForwardingRuleRead config (Partial False (Partial True d)) cs
      \<and> \<not> list_ex mutating (new_calls cs (resourceComputeForwardingRuleUpdate config d cs)))
   \<and> (ForwardingRules_SetTarget p r i t
         \<in> set (new_calls cs (resourceComputeForwardingRuleUpdate config d cs)) \<longrightarrow>
      HasChange d ''target'' \<and> getRegion config d = Inr r \<and> getProject config d = Inr p
      \<and> i = Id d \<and> t = TargetReference (GetString d ''target''))"
proof (intro conjI impI)
  assume "getRegion config d = Inl err"
  then show "resourceComputeForwardingRuleUpdate config d cs = (Some err, d, cs)"
    by (rule Update_unresolved)
next
  assume "getRegion config d = Inr region \<and> getProject config d = Inl err"
  then show "resourceComputeForwardingRuleUpdate config d cs = (Some err, d, cs)"
    by (simp add: Update_unresolved)
next
  assume "getRegion config d = Inr region \<and> getProject config d = Inr project
        \<and> HasChange d ''target''"
  then show "\<exists>rest. new_calls cs (resourceComputeForwardingRuleUpdate config d cs) =
          ForwardingRules_SetTarget project region (Id d)
            (TargetReference (GetString d ''target'')) # rest
        \<and> \<not> list_ex mutating rest"
    using Update_resolved [of config d region project cs] by blast
next
  assume a: "getRegion config d = Inr region \<and> getProject config d = Inr project
        \<and> \<not> HasChange d ''target''"
  then show "resourceComputeForwardingRuleUpdate config d cs =
        resourceComputeForwardingRuleRead config (Partial False (Partial True d)) cs"
    using Update_resolved [of config d region project cs] by blast
  from a show "\<not> list_ex mutating (new_calls cs (resourceComputeForwardingRuleUpdate config d cs))"
    using Update_resolved [of config d region project cs] by blast
next
  assume s: "ForwardingRules_SetTarget p r i t
         \<in> set (new_calls cs (resourceComputeForwardingRuleUpdate config d cs))"
  have issued: "HasChange d ''target'' \<and> getRegion config d = Inr r \<and> getProject config d = Inr p
      \<and> i = Id d \<and> t = TargetReference (GetString d ''target'')"
  proof (cases "getRegion config d")
    case (Inl e)
    with s show ?thesis
      by (simp add: Update_unresolved new_calls_def)
  next
    case region: (Inr region')
    show ?thesis
    proof (cases "getProject config d")
      case (Inl e)
      with s region show ?thesis
        by (simp add: Update_unresolved new_calls_def)
    next
      case project: (Inr project')
      show ?thesis
      proof (cases "HasChange d ''target''")
        case True
        with Update_resolved [OF region project, of cs] obtain rest where
          "new_calls cs (resourceComputeForwardingRuleUpdate config d cs) =
              ForwardingRules_SetTarget project' region' (Id d)
                (TargetReference (GetString d ''target'')) # rest"
          "\<not> list_ex mutating rest"
          by blast
        with s have "ForwardingRules_SetTarget p r i t =
            ForwardingRules_SetTarget project' region' (Id d)
              (TargetReference (GetString d ''target''))"
          by (auto simp: list_ex_iff)
        with True region project show ?thesis by simp
      next
        case False
        with Update_resolved [OF region project, of cs]
        have "\<not> list_ex mutating (new_calls cs (resourceComputeForwardingRuleUpdate config d cs))"
          by blast
        with s show ?thesis
          by (auto simp: list_ex_iff)
      qed
    qed
  qed
  from issued show "HasChange d ''target''" by blast
  from issued show "getRegion config d = Inr r" by blast
  from issued show "getProject config d = Inr p" by blast
  from issued show "i = Id d" by blast
  from issued show "t = TargetReference (GetString d ''target'')" by blast
qed

text \<open>
  An unresolved region, an unresolved project, and both cases of a resolved Update in
  the concrete environments.
\<close>

theorem update_set_target_iff_changed_witness:
  "resourceComputeForwardingRuleUpdate env_region_fails changed_data [] =
     (Some (Error ''no region''), changed_data, [])
   \<and> resourceComputeForwardingRuleUpdate env_project_fails unchanged_data [] =
     (Some (Error ''no project''), unchanged_data, [])
   \<and> (\<exists>rest. new_calls [] (resourceComputeForwardingRuleUpdate env_ok changed_data []) =
       ForwardingRules_SetTarget ''p'' ''r'' ''rule'' (TargetReference ''pool'') # rest
     \<and> \<not> list_ex mutating rest)
   \<and> \<not> list_ex mutating (new_calls [] (resourceComputeForwardingRuleUpdate env_ok unchanged_data []))
   \<and> ForwardingRules_SetTarget ''p'' ''r'' ''rule'' (TargetReference ''pool'')
       \<in> set (new_calls [] (resourceComputeForwardingRuleUpdate env_ok changed_data []))
   \<and> HasChange changed_data ''target''"
proof -
  have r: "getRegion env_ok d = Inr ''r''" and p: "getProject env_ok d = Inr ''p''" for d
    by (simp_all add: env_ok_def)
  have f: "getRegion env_region_fails changed_data = Inl (Error ''no region'')"
    "getRegion env_project_fails unchanged_data = Inr ''r''"
    "getProject env_project_fails unchanged_data = Inl (Error ''no project'')"
    by (simp_all add: env_region_fails_def env_project_fails_def env_ok_def)
  have c: "HasChange changed_data ''target''" and u: "\<not> HasChange unchanged_data ''target''"
    by (simp_all add: HasChange_def changed_data_def unchanged_data_def config_data_def)
  have i: "Id changed_data = ''rule''" "GetString changed_data ''target'' = ''pool''"
    by (simp_all add: Id_def GetString_def changed_data_def config_data_def)
  from update_set_target_iff_changed [of env_region_fails changed_data "Error ''no region''" "[]"] f
  have e1: "resourceComputeForwardingRuleUpdate env_region_fails changed_data [] =
     (Some (Error ''no region''), changed_data, [])"
    by blast
  from update_set_target_iff_changed
         [of env_project_fails unchanged_data "Error ''no project''" "[]" "''r''"] f
  have e2: "resourceComputeForwardingRuleUpdate env_project_fails unchanged_data [] =
     (Some (Error ''no project''), unchanged_data, [])"
    by blast
  from update_set_target_iff_changed [of env_ok changed_data _ "[]" "''r''" "''p''"] r p c i
  have a: "\<exists>rest. new_calls [] (resourceComputeForwardingRuleUpdate env_ok changed_data []) =
       ForwardingRules_SetTarget ''p'' ''r'' ''rule'' (TargetReference ''pool'') # rest
     \<and> \<not> list_ex mutating rest"
    by simp
  from update_set_target_iff_changed [of env_ok unchanged_data _ "[]" "''r''" "''p''"] r p u
  have b: "\<not> list_ex mutating
      (new_calls [] (resourceComputeForwardingRuleUpdate env_ok unchanged_data []))"
    by blast
  from a have m: "ForwardingRules_SetTarget ''p'' ''r'' ''rule'' (TargetReference ''pool'')
       \<in> set (new_calls [] (resourceComputeForwardingRuleUpdate env_ok changed_data []))"
    by auto
  from e1 e2 a b m c show ?thesis by blast
qed

subsection \<open>Create and Update end with Read\<close>

text \<open>
  C5, as stated, has the resource data of every successful Create or Update reconciled
  with the remote rule. Both end with Read, and Read hands an error of its \<^verbatim>\<open>Get\<close>
  call to \<^verbatim>\<open>handleNotFoundError\<close>. Where that clears the ID and returns \<^verbatim>\<open>nil\<close>
  for a rule that is gone, the insert (or the new target) is accepted, the wait succeeds,
  Create (or Update) returns \<^verbatim>\<open>nil\<close>, and the resource data is the configured data
  without an ID: project, region and self-link are not even set.
\<close>

theorem create_not_found_counterexample:
  "Insert_Do env_not_found [] ''p'' ''r''
      (create_frule env_not_found config_data (FieldValue ''global/networks/default'')
         (FieldValue ''subnetworks/'')) = Inr (Operation ''insert'')
   \<and> computeSharedOperationWait env_not_found
       [ForwardingRules_Insert ''p'' ''r''
          (create_frule env_not_found config_data (FieldValue ''global/networks/default'')
             (FieldValue ''subnetworks/''))]
       (Operation ''insert'') ''p'' ''Creating Fowarding Rule'' = None
   \<and> resourceComputeForwardingRuleCreate env_not_found config_data [] =
       (None, config_data,
        [ForwardingRules_Insert ''p'' ''r''
           (create_frule env_not_found config_data (FieldValue ''global/networks/default'')
              (FieldValue ''subnetworks/'')),
         SharedOperationWait (Operation ''insert'') ''p'' ''Creating Fowarding Rule'',
         ForwardingRules_Get ''p'' ''r'' ''rule''])
   \<and> HasChange changed_data ''target''
   \<and> SetTarget_Do env_not_found [] ''p'' ''r'' ''rule'' (TargetReference ''pool'') =
       Inr (Operation ''set-target'')
   \<and> computeOperationWait env_not_found
       [ForwardingRules_SetTarget ''p'' ''r'' ''rule'' (TargetReference ''pool'')]
       (Operation ''set-target'') ''p'' ''Updating Forwarding Rule'' = None
   \<and> resourceComputeForwardingRuleUpdate env_not_found changed_data [] =
       (None, config_data,
        [ForwardingRules_SetTarget ''p'' ''r'' ''rule'' (TargetReference ''pool''),
         OperationWait (Operation ''set-target'') ''p'' ''Updating Forwarding Rule'',
         ForwardingRules_Get ''p'' ''r'' ''rule''])
   \<and> Id config_data = []
   \<and> GetString config_data ''project'' = []
   \<and> GetString config_data ''region'' = []
   \<and> GetString config_data ''self_link'' = []"
  by (simp add: resourceComputeForwardingRuleCreate_def resourceComputeForwardingRuleUpdate_def
      resourceComputeForwardingRuleRead_def env_not_found_def env_ok_def config_data_def
      changed_data_def GetString_def HasChange_def Let_def create_frule_def SetId_def Id_def
      Partial_def SetPartial_def)

text \<open>
  C5, amended. When the insert is accepted and its wait succeeds, the result of Create
  is the result of Read on the resource data with the ID set, after the two calls. When
  the target has changed, \<^verbatim>\<open>SetTarget\<close> is accepted and its wait succeeds, the result
  of Update is the result of Read, after those two calls; when the target has not changed
  it is the result of Read at once. On each of these three paths, if region and project
  resolve again in Read and its \<^verbatim>\<open>Get\<close> call succeeds, Create (or Update) returns
  \<^verbatim>\<open>nil\<close> and leaves resource data that agrees with the fetched rule; if the
  \<^verbatim>\<open>Get\<close> call fails, Create (or Update) returns what \<^verbatim>\<open>handleNotFoundError\<close>
  returns for that error, the error and the resource data both.
\<close>

theorem create_update_finish_with_read:
  "(ParseNetworkFieldValue config (GetString d ''network'') d = Inr network
      \<and> ParseSubnetworkFieldValue config (GetString d ''subnetwork'') d = Inr subnetwork
      \<and> getRegion config d = Inr region
      \<and> getProject config d = Inr project
      \<and> Insert_Do config cs project region (create_frule config d network subnetwork) = Inr op
      \<and> computeSharedOperationWait config
            (cs @ [ForwardingRules_Insert project region (create_frule config d network subnetwork)])
            op project ''Creating Fowarding Rule'' = None
    \<longrightarrow> resourceComputeForwardingRuleCreate config d cs =
          resourceComputeForwardingRuleRead config (SetId (GetString d ''name'') d)
            (cs @ [ForwardingRules_Insert project region (create_frule config d network subnetwork),
              SharedOperationWait op project ''Creating Fowarding Rule'']))
   \<and> (getRegion config d = Inr region
      \<and> getProject config d = Inr project
      \<and> HasChange d ''target''
      \<and> SetTarget_Do config cs project region (Id d) (TargetReference (GetString d ''target'')) = Inr op
      \<and> computeOperationWait config
            (cs @ [ForwardingRules_SetTarget project region (Id d) (TargetReference (GetString d ''target''))])
            op project ''Updating Forwarding Rule'' = None
    \<longrightarrow> resourceComputeForwardingRuleUpdate config d cs =
          resourceComputeForwardingRuleRead config (Partial False (SetPartial ''target'' (Partial True d)))
            (cs @ [ForwardingRules_SetTarget project region (Id d) (TargetReference (GetString d ''target'')),
              OperationWait op project ''Updating Forwarding Rule'']))
   \<and> (getRegion config d = Inr region
      \<and> getProject config d = Inr project
      \<and> \<not> HasChange d ''target''
    \<longrightarrow> resourceComputeForwardingRuleUpdate config d cs =
          resourceComputeForwardingRuleRead config (Partial False (Partial True d))
            cs)
   \<and> (ParseNetworkFieldValue config (GetString d ''network'') d = Inr network
      \<and> ParseSubnetworkFieldValue config (GetString d ''subnetwork'') d = Inr subnetwork
      \<and> getRegion config d = Inr region
      \<and> getProject config d = Inr project
      \<and> Insert_Do config cs project region (create_frule config d network subnetwork) = Inr op
      \<and> computeSharedOperationWait config
            (cs @ [ForwardingRules_Insert project region (create_frule config d network subnetwork)])
            op project ''Creating Fowarding Rule'' = None
      \<and> getRegion config (SetId (GetString d ''name'') d) = Inr region'
      \<and> getProject config (SetId (GetString d ''name'') d) = Inr project'
      \<and> Get_Do config (cs @ [ForwardingRules_Insert project region (create_frule config d network subnetwork),
              SharedOperationWait op project ''Creating Fowarding Rule'']) project' region' (Id (SetId (GetString d ''name'') d)) = Inr frule
    \<longrightarrow> (\<exists>d'. resourceComputeForwardingRuleCreate config d cs =
            (None, d', (cs @ [ForwardingRules_Insert project region (create_frule config d network subnetwork),
              SharedOperationWait op project ''Creating Fowarding Rule'']) @ [ForwardingRules_Get project' region' (Id (SetId (GetString d ''name'') d))])
          \<and> reconciled config frule project' region' d'))
   \<and> (getRegion config d = Inr region
      \<and> getProject config d = Inr project
      \<and> HasChange d ''target''
      \<and> SetTarget_Do config cs project region (Id d) (TargetReference (GetString d ''target'')) = Inr op
      \<and> computeOperationWait config
            (cs @ [ForwardingRules_SetTarget project region (Id d) (TargetReference (GetString d ''target''))])
            op project ''Updating Forwarding Rule'' = None
      \<and> getRegion config (Partial False (SetPartial ''target'' (Partial True d))) = Inr region'
      \<and> getProject config (Partial False (SetPartial ''target'' (Partial True d))) = Inr project'
      \<and> Get_Do config (cs @ [ForwardingRules_SetTarget project region (Id d) (TargetReference (GetString d ''target'')),
              OperationWait op project ''Updating Forwarding Rule'']) project' region' (Id (Partial False (SetPartial ''target'' (Partial True d)))) = Inr frule
    \<longrightarrow> (\<exists>d'. resourceComputeForwardingRuleUpdate config d cs =
            (None, d', (cs @ [ForwardingRules_SetTarget project region (Id d) (TargetReference (GetString d ''target'')),
              OperationWait op project ''Updating Forwarding Rule'']) @ [ForwardingRules_Get project' region' (Id (Partial False (SetPartial ''target'' (Partial True d))))])
          \<and> reconciled config frule project' region' d'))
   \<and> (getRegion config d = Inr region
      \<and> getProject config d = Inr project
      \<and> \<not> HasChange d ''target''
      \<and> getRegion config (Partial False (Partial True d)) = Inr region'
      \<and> getProject config (Partial False (Partial True d)) = Inr project'
      \<and> Get_Do config cs project' region' (Id (Partial False (Partial True d))) = Inr frule
    \<longrightarrow> (\<exists>d'. resourceComputeForwardingRuleUpdate config d cs =
            (None, d', cs @ [ForwardingRules_Get project' region' (Id (Partial False (Partial True d)))])
          \<and> reconciled config frule project' region' d'))
   \<and> (ParseNetworkFieldValue config (GetString d ''network'') d = Inr network
      \<and> ParseSubnetworkFieldValue config (GetString d ''subnetwork'') d = Inr subnetwork
      \<and> getRegion config d = Inr region
      \<and> getProject config d = Inr project
      \<and> Insert_Do config cs project region (create_frule config d network subnetwork) = Inr op
      \<and> computeSharedOperationWait config
            (cs @ [ForwardingRules_Insert project region (create_frule config d network subnetwork)])
            op project ''Creating Fowarding Rule'' = None
      \<and> getRegion config (SetId (GetString d ''name'') d) = Inr region'
      \<and> getProject config (SetId (GetString d ''name'') d) = Inr project'
      \<and> Get_Do config (cs @ [ForwardingRules_Insert project region (create_frule config d network subnetwork),
              SharedOperationWait op project ''Creating Fowarding Rule'']) project' region' (Id (SetId (GetString d ''name'') d)) = Inl err
    \<longrightarrow> resourceComputeForwardingRuleCreate config d cs =
          (case handleNotFoundError config err (SetId (GetString d ''name'') d)
                  (''Forwarding Rule '' @ Sprintf_q config (GetString (SetId (GetString d ''name'') d) ''name'')) of
             (e, d') \<Rightarrow> (e, d', (cs @ [ForwardingRules_Insert project region (create_frule config d network subnetwork),
              SharedOperationWait op project ''Creating Fowarding Rule'']) @ [ForwardingRules_Get project' region' (Id (SetId (GetString d ''name'') d))])))
   \<and> (getRegion config d = Inr region
      \<and> getProject config d = Inr project
      \<and> HasChange d ''target''
      \<and> SetTarget_Do config cs project region (Id d) (TargetReference (GetString d ''target'')) = Inr op
      \<and> computeOperationWait config
            (cs @ [ForwardingRules_SetTarget project region (Id d) (TargetReference (GetString d ''target''))])
            op project ''Updating Forwarding Rule'' = None
      \<and> getRegion config (Partial False (SetPartial ''target'' (Partial True d))) = Inr region'
      \<and> getProject config (Partial False (SetPartial ''target'' (Partial True d))) = Inr project'
      \<and> Get_Do config (cs @ [ForwardingRules_SetTarget project region (Id d) (TargetReference (GetString d ''target'')),
              OperationWait op project ''Updating Forwarding Rule'']) project' region' (Id (Partial False (SetPartial ''target'' (Partial True d)))) = Inl err
    \<longrightarrow> resourceComputeForwardingRuleUpdate config d cs =
          (case handleNotFoundError config err (Partial False (SetPartial ''target'' (Partial True d)))
                  (''Forwarding Rule '' @ Sprintf_q config (GetString (Partial False (SetPartial ''target'' (Partial True d))) ''name'')) of
             (e, d') \<Rightarrow> (e, d', (cs @ [ForwardingRules_SetTarget project region (Id d) (TargetReference (GetString d ''target'')),
              OperationWait op project ''Updating Forwarding Rule'']) @ [ForwardingRules_Get project' region' (Id (Partial False (SetPartial ''target'' (Partial True d))))])))
   \<and> (getRegion config d = Inr region
      \<and> getProject config d = Inr project
      \<and> \<not> HasChange d ''target''
      \<and> getRegion config (Partial False (Partial True d)) = Inr region'
      \<and> getProject config (Partial False (Partial True d)) = Inr project'
      \<and> Get_Do config cs project' region' (Id (Partial False (Partial True d))) = Inl err
    \<longrightarrow> resourceComputeForwardingRuleUpdate config d cs =
          (case handleNotFoundError config err (Partial False (Partial True d))
                  (''Forwarding Rule '' @ Sprintf_q config (GetString (Partial False (Partial True d)) ''name'')) of
             (e, d') \<Rightarrow> (e, d', cs @ [ForwardingRules_Get project' region' (Id (Partial False (Partial True d)))])))"
proof (intro conjI impI)
  assume "ParseNetworkFieldValue config (GetString d ''network'') d = Inr network
      \<and> ParseSubnetworkFieldValue config (GetString d ''subnetwork'') d = Inr subnetwork
      \<and> getRegion config d = Inr region
      \<and> getProject config d = Inr project
      \<and> Insert_Do config cs project region (create_frule config d network subnetwork) = Inr op
      \<and> computeSharedOperationWait config
            (cs @ [ForwardingRules_Insert project region (create_frule config d network subnetwork)])
            op project ''Creating Fowarding Rule'' = None"
  then show "resourceComputeForwardingRuleCreate config d cs =
          resourceComputeForwardingRuleRead config (SetId (GetString d ''name'') d)
            (cs @ [ForwardingRules_Insert project region (create_frule config d network subnetwork),
              SharedOperationWait op project ''Creating Fowarding Rule''])" by (rule Create_handoff)
next
  assume "getRegion config d = Inr region
      \<and> getProject config d = Inr project
      \<and> HasChange d ''target''
      \<and> SetTarget_Do config cs project region (Id d) (TargetReference (GetString d ''target'')) = Inr op
      \<and> computeOperationWait config
            (cs @ [ForwardingRules_SetTarget project region (Id d) (TargetReference (GetString d ''target''))])
            op project ''Updating Forwarding Rule'' = None"
  then show "resourceComputeForwardingRuleUpdate config d cs =
          resourceComputeForwardingRuleRead config (Partial False (SetPartial ''target'' (Partial True d)))
            (cs @ [ForwardingRules_SetTarget project region (Id d) (TargetReference (GetString d ''target'')),
              OperationWait op project ''Updating Forwarding Rule''])" by (rule Update_handoff_changed)
next
  assume "getRegion config d = Inr region
      \<and> getProject config d = Inr project
      \<and> \<not> HasChange d ''target''"
  then show "resourceComputeForwardingRuleUpdate config d cs =
          resourceComputeForwardingRuleRead config (Partial False (Partial True d))
            cs" by (rule Update_handoff_unchanged)
next
  assume a: "ParseNetworkFieldValue config (GetString d ''network'') d = Inr network
      \<and> ParseSubnetworkFieldValue config (GetString d ''subnetwork'') d = Inr subnetwork
      \<and> getRegion config d = Inr region
      \<and> getProject config d = Inr project
      \<and> Insert_Do config cs project region (create_frule config d network subnetwork) = Inr op
      \<and> computeSharedOperationWait config
            (cs @ [ForwardingRules_Insert project region (create_frule config d network subnetwork)])
            op project ''Creating Fowarding Rule'' = None
      \<and> getRegion config (SetId (GetString d ''name'') d) = Inr region'
      \<and> getProject config (SetId (GetString d ''name'') d) = Inr project'
      \<and> Get_Do config (cs @ [ForwardingRules_Insert project region (create_frule config d network subnetwork),
              SharedOperationWait op project ''Creating Fowarding Rule'']) project' region' (Id (SetId (GetString d ''name'') d)) = Inr frule"
  then have "ParseNetworkFieldValue config (GetString d ''network'') d = Inr network
      \<and> ParseSubnetworkFieldValue config (GetString d ''subnetwork'') d = Inr subnetwork
      \<and> getRegion config d = Inr region
      \<and> getProject config d = Inr project
      \<and> Insert_Do config cs project region (create_frule config d network subnetwork) = Inr op
      \<and> computeSharedOperationWait config
            (cs @ [ForwardingRules_Insert project region (create_frule config d network subnetwork)])
            op project ''Creating Fowarding Rule'' = None" by blast
  from Create_handoff [OF this] a Read_success [of config "(SetId (GetString d ''name'') d)" region' project' "(cs @ [ForwardingRules_Insert project region (create_frule config d network subnetwork),
              SharedOperationWait op project ''Creating Fowarding Rule''])" frule]
  show "(\<exists>d'. resourceComputeForwardingRuleCreate config d cs =
            (None, d', (cs @ [ForwardingRules_Insert project region (create_frule config d network subnetwork),
              SharedOperationWait op project ''Creating Fowarding Rule'']) @ [ForwardingRules_Get project' region' (Id (SetId (GetString d ''name'') d))])
          \<and> reconciled config frule project' region' d')" by auto
next
  assume a: "getRegion config d = Inr region
      \<and> getProject config d = Inr project
      \<and> HasChange d ''target''
      \<and> SetTarget_Do config cs project region (Id d) (TargetReference (GetString d ''target'')) = Inr op
      \<and> computeOperationWait config
            (cs @ [ForwardingRules_SetTarget project region (Id d) (TargetReference (GetString d ''target''))])
            op project ''Updating Forwarding Rule'' = None
      \<and> getRegion config (Partial False (SetPartial ''target'' (Partial True d))) = Inr region'
      \<and> getProject config (Partial False (SetPartial ''target'' (Partial True d))) = Inr project'
      \<and> Get_Do config (cs @ [ForwardingRules_SetTarget project region (Id d) (TargetReference (GetString d ''target'')),
              OperationWait op project ''Updating Forwarding Rule'']) project' region' (Id (Partial False (SetPartial ''target'' (Partial True d)))) = Inr frule"
  then have "getRegion config d = Inr region
      \<and> getProject config d = Inr project
      \<and> HasChange d ''target''
      \<and> SetTarget_Do config cs project region (Id d) (TargetReference (GetString d ''target'')) = Inr op
      \<and> computeOperationWait config
            (cs @ [ForwardingRules_SetTarget project region (Id d) (TargetReference (GetString d ''target''))])
            op project ''Updating Forwarding Rule'' = None" by blast
  from Update_handoff_changed [OF this] a Read_success [of config "(Partial False (SetPartial ''target'' (Partial True d)))" region' project' "(cs @ [ForwardingRules_SetTarget project region (Id d) (TargetReference (GetString d ''target'')),
              OperationWait op project ''Updating Forwarding Rule''])" frule]
  show "(\<exists>d'. resourceComputeForwardingRuleUpdate config d cs =
            (None, d', (cs @ [ForwardingRules_SetTarget project region (Id d) (TargetReference (GetString d ''target'')),
              OperationWait op project ''Updating Forwarding Rule'']) @ [ForwardingRules_Get project' region' (Id (Partial False (SetPartial ''target'' (Partial True d))))])
          \<and> reconciled config frule project' region' d')" by auto
next
  assume a: "getRegion config d = Inr region
      \<and> getProject config d = Inr project
      \<and> \<not> HasChange d ''target''
      \<and> getRegion config (Partial False (Partial True d)) = Inr region'
      \<and> getProject config (Partial False (Partial True d)) = Inr project'
      \<and> Get_Do config cs project' region' (Id (Partial False (Partial True d))) = Inr frule"
  then have "getRegion config d = Inr region
      \<and> getProject config d = Inr project
      \<and> \<not> HasChange d ''target''" by blast
  from Update_handoff_unchanged [OF this] a Read_success [of config "(Partial False (Partial True d))" region' project' cs frule]
  show "(\<exists>d'. resourceComputeForwardingRuleUpdate config d cs =
            (None, d', cs @ [ForwardingRules_Get project' region' (Id (Partial False (Partial True d)))])
          \<and> reconciled config frule project' region' d')" by auto
next
  assume a: "ParseNetworkFieldValue config (GetString d ''network'') d = Inr network
      \<and> ParseSubnetworkFieldValue config (GetString d ''subnetwork'') d = Inr subnetwork
      \<and> getRegion config d = Inr region
      \<and> getProject config d = Inr project
      \<and> Insert_Do config cs project region (create_frule config d network subnetwork) = Inr op
      \<and> computeSharedOperationWait config
            (cs @ [ForwardingRules_Insert project region (create_frule config d network subnetwork)])
            op project ''Creating Fowarding Rule'' = None
      \<and> getRegion config (SetId (GetString d ''name'') d) = Inr region'
      \<and> getProject config (SetId (GetString d ''name'') d) = Inr project'
      \<and> Get_Do config (cs @ [ForwardingRules_Insert project region (create_frule config d network subnetwork),
              SharedOperationWait op project ''Creating Fowarding Rule'']) project' region' (Id (SetId (GetString d ''name'') d)) = Inl err"
  then have "ParseNetworkFieldValue config (GetString d ''network'') d = Inr network
      \<and> ParseSubnetworkFieldValue config (GetString d ''subnetwork'') d = Inr subnetwork
      \<and> getRegion config d = Inr region
      \<and> getProject config d = Inr project
      \<and> Insert_Do config cs project region (create_frule config d network subnetwork) = Inr op
      \<and> computeSharedOperationWait config
            (cs @ [ForwardingRules_Insert project region (create_frule config d network subnetwork)])
            op project ''Creating Fowarding Rule'' = None" by blast
  from Create_handoff [OF this] a Read_failure [of config "(SetId (GetString d ''name'') d)" region' project' "(cs @ [ForwardingRules_Insert project region (create_frule config d network subnetwork),
              SharedOperationWait op project ''Creating Fowarding Rule''])" err]
  show "resourceComputeForwardingRuleCreate config d cs =
          (case handleNotFoundError config err (SetId (GetString d ''name'') d)
                  (''Forwarding Rule '' @ Sprintf_q config (GetString (SetId (GetString d ''name'') d) ''name'')) of
             (e, d') \<Rightarrow> (e, d', (cs @ [ForwardingRules_Insert project region (create_frule config d network subnetwork),
              SharedOperationWait op project ''Creating Fowarding Rule'']) @ [ForwardingRules_Get project' region' (Id (SetId (GetString d ''name'') d))]))" by auto
next
  assume a: "getRegion config d = Inr region
      \<and> getProject config d = Inr project
      \<and> HasChange d ''target''
      \<and> SetTarget_Do config cs project region (Id d) (TargetReference (GetString d ''target'')) = Inr op
      \<and> computeOperationWait config
            (cs @ [ForwardingRules_SetTarget project region (Id d) (TargetReference (GetString d ''target''))])
            op project ''Updating Forwarding Rule'' = None
      \<and> getRegion config (Partial False (SetPartial ''target'' (Partial True d))) = Inr region'
      \<and> getProject config (Partial False (SetPartial ''target'' (Partial True d))) = Inr project'
      \<and> Get_Do config (cs @ [ForwardingRules_SetTarget project region (Id d) (TargetReference (GetString d ''target'')),
              OperationWait op project ''Updating Forwarding Rule'']) project' region' (Id (Partial False (SetPartial ''target'' (Partial True d)))) = Inl err"
  then have "getRegion config d = Inr region
      \<and> getProject config d = Inr project
      \<and> HasChange d ''target''
      \<and> SetTarget_Do config cs project region (Id d) (TargetReference (GetString d ''target'')) = Inr op
      \<and> computeOperationWait config
            (cs @ [ForwardingRules_SetTarget project region (Id d) (TargetReference (GetString d ''target''))])
            op project ''Updating Forwarding Rule'' = None" by blast
  from Update_handoff_changed [OF this] a Read_failure [of config "(Partial False (SetPartial ''target'' (Partial True d)))" region' project' "(cs @ [ForwardingRules_SetTarget project region (Id d) (TargetReference (GetString d ''target'')),
              OperationWait op project ''Updating Forwarding Rule''])" err]
  show "resourceComputeForwardingRuleUpdate config d cs =
          (case handleNotFoundError config err (Partial False (SetPartial ''target'' (Partial True d)))
                  (''Forwarding Rule '' @ Sprintf_q config (GetString (Partial False (SetPartial ''target'' (Partial True d))) ''name'')) of
             (e, d') \<Rightarrow> (e, d', (cs @ [ForwardingRules_SetTarget project region (Id d) (TargetReference (GetString d ''target'')),
              OperationWait op project ''Updating Forwarding Rule'']) @ [ForwardingRules_Get project' region' (Id (Partial False (SetPartial ''target'' (Partial True d))))]))" by auto
next
  assume a: "getRegion config d = Inr region
      \<and> getProject config d = Inr project
      \<and> \<not> HasChange d ''target''
      \<and> getRegion config (Partial False (Partial True d)) = Inr region'
      \<and> getProject config (Partial False (Partial True d)) = Inr project'
      \<and> Get_Do config cs project' region' (Id (Partial False (Partial True d))) = Inl err"
  then have "getRegion config d = Inr region
      \<and> getProject config d = Inr project
      \<and> \<not> HasChange d ''target''" by blast
  from Update_handoff_unchanged [OF this] a Read_failure [of config "(Partial False (Partial True d))" region' project' cs err]
  show "resourceComputeForwardingRuleUpdate config d cs =
          (case handleNotFoundError config err (Partial False (Partial True d))
                  (''Forwarding Rule '' @ Sprintf_q config (GetString (Partial False (Partial True d)) ''name'')) of
             (e, d') \<Rightarrow> (e, d', cs @ [ForwardingRules_Get project' region' (Id (Partial False (Partial True d)))]))" by auto
qed

text \<open>
  Create and both cases of Update where the rule is fetched, and Create where the rule
  is gone.
\<close>

theorem create_update_finish_with_read_witness:
  "(\<exists>d'. resourceComputeForwardingRuleCreate env_ok config_data [] =
       (None, d',
        [ForwardingRules_Insert ''p'' ''r''
           (create_frule env_ok config_data (FieldValue ''global/networks/default'')
              (FieldValue ''subnetworks/'')),
         SharedOperationWait (Operation ''insert'') ''p'' ''Creating Fowarding Rule'',
         ForwardingRules_Get ''p'' ''r'' ''rule''])
     \<and> reconciled env_ok remote_rule ''p'' ''r'' d')
   \<and> (\<exists>d'. resourceComputeForwardingRuleUpdate env_ok changed_data [] =
       (None, d',
        [ForwardingRules_SetTarget ''p'' ''r'' ''rule'' (TargetReference ''pool''),
         OperationWait (Operation ''set-target'') ''p'' ''Updating Forwarding Rule'',
         ForwardingRules_Get ''p'' ''r'' ''rule''])
     \<and> reconciled env_ok remote_rule ''p'' ''r'' d')
   \<and> (\<exists>d'. resourceComputeForwardingRuleUpdate env_ok unchanged_data [] =
       (None, d', [ForwardingRules_Get ''p'' ''r'' ''rule''])
     \<and> reconciled env_ok remote_rule ''p'' ''r'' d')
   \<and> resourceComputeForwardingRuleCreate env_not_found config_data [] =
       (None, SetId [] (SetId ''rule'' config_data),
        [ForwardingRules_Insert ''p'' ''r''
           (create_frule env_not_found config_data (FieldValue ''global/networks/default'')
              (FieldValue ''subnetworks/'')),
         SharedOperationWait (Operation ''insert'') ''p'' ''Creating Fowarding Rule'',
         ForwardingRules_Get ''p'' ''r'' ''rule''])"
proof -
  have e: "ParseNetworkFieldValue env_ok (GetString config_data ''network'') config_data =
             Inr (FieldValue ''global/networks/default'')"
    "ParseSubnetworkFieldValue env_ok (GetString config_data ''subnetwork'') config_data =
             Inr (FieldValue ''subnetworks/'')"
    "getRegion env_ok d = Inr ''r''" "getProject env_ok d = Inr ''p''"
    "Insert_Do env_ok cs p r f = Inr (Operation ''insert'')"
    "SetTarget_Do env_ok cs p r i t = Inr (Operation ''set-target'')"
    "computeSharedOperationWait env_ok cs opn p a = None"
    "computeOperationWait env_ok cs opn p a = None"
    "Get_Do env_ok cs p r i = Inr remote_rule"
    for d cs p r f i t opn a
    by (simp_all add: env_ok_def GetString_def config_data_def)
  have n: "ParseNetworkFieldValue env_not_found (GetString config_data ''network'') config_data =
             Inr (FieldValue ''global/networks/default'')"
    "ParseSubnetworkFieldValue env_not_found (GetString config_data ''subnetwork'') config_data =
             Inr (FieldValue ''subnetworks/'')"
    "getRegion env_not_found d = Inr ''r''" "getProject env_not_found d = Inr ''p''"
    "Insert_Do env_not_found cs p r f = Inr (Operation ''insert'')"
    "computeSharedOperationWait env_not_found cs opn p a = None"
    "Get_Do env_not_found cs p r i = Inl (Error ''googleapi: Error 404: notFound'')"
    "handleNotFoundError env_not_found (Error ''googleapi: Error 404: notFound'') d' s =
       (None, SetId [] d')"
    for d cs p r f i opn a d' s
    by (simp_all add: env_not_found_def env_ok_def GetString_def config_data_def)
  have v: "GetString config_data ''name'' = ''rule''"
    "HasChange changed_data ''target''" "\<not> HasChange unchanged_data ''target''"
    "Id changed_data = ''rule''" "GetString changed_data ''target'' = ''pool''"
    "Id unchanged_data = ''rule''"
    "Id (SetId ''rule'' config_data) = ''rule''"
    "Id (Partial False d) = Id d" "Id (SetPartial k d) = Id d" "Id (Partial True d) = Id d"
    for d k
    by (simp_all add: GetString_def HasChange_def Id_def SetId_def config_data_def
        changed_data_def unchanged_data_def Partial_def SetPartial_def)
  from create_update_finish_with_read
         [where config = env_ok and d = config_data and cs = "[]"
            and network = "FieldValue ''global/networks/default''"
            and subnetwork = "FieldValue ''subnetworks/''"
            and region = "''r''" and project = "''p''" and op = "Operation ''insert''"
            and region' = "''r''" and project' = "''p''" and frule = remote_rule,
          THEN conjunct2, THEN conjunct2, THEN conjunct2, THEN conjunct1]
       e v
  have a: "\<exists>d'. resourceComputeForwardingRuleCreate env_ok config_data [] =
       (None, d',
        [ForwardingRules_Insert ''p'' ''r''
           (create_frule env_ok config_data (FieldValue ''global/networks/default'')
              (FieldValue ''subnetworks/'')),
         SharedOperationWait (Operation ''insert'') ''p'' ''Creating Fowarding Rule'',
         ForwardingRules_Get ''p'' ''r'' ''rule''])
     \<and> reconciled env_ok remote_rule ''p'' ''r'' d'"
    by simp
  from create_update_finish_with_read
         [where config = env_ok and d = changed_data and cs = "[]"
            and region = "''r''" and project = "''p''" and op = "Operation ''set-target''"
            and region' = "''r''" and project' = "''p''" and frule = remote_rule,
          THEN conjunct2, THEN conjunct2, THEN conjunct2, THEN conjunct2, THEN conjunct1]
       e v
  have b: "\<exists>d'. resourceComputeForwardingRuleUpdate env_ok changed_data [] =
       (None, d',
        [ForwardingRules_SetTarget ''p'' ''r'' ''rule'' (TargetReference ''pool''),
         OperationWait (Operation ''set-target'') ''p'' ''Updating Forwarding Rule'',
         ForwardingRules_Get ''p'' ''r'' ''rule''])
     \<and> reconciled env_ok remote_rule ''p'' ''r'' d'"
    by simp
  from create_update_finish_with_read
         [where config = env_ok and d = unchanged_data and cs = "[]"
            and region = "''r''" and project = "''p''"
            and region' = "''r''" and project' = "''p''" and frule = remote_rule,
          THEN conjunct2, THEN conjunct2, THEN conjunct2, THEN conjunct2, THEN conjunct2, THEN conjunct1]
       e v
  have c: "\<exists>d'. resourceComputeForwardingRuleUpdate env_ok unchanged_data [] =
       (None, d', [ForwardingRules_Get ''p'' ''r'' ''rule''])
     \<and> reconciled env_ok remote_rule ''p'' ''r'' d'"
    by simp
  from create_update_finish_with_read
         [where config = env_not_found and d = config_data and cs = "[]"
            and network = "FieldValue ''global/networks/default''"
            and subnetwork = "FieldValue ''subnetworks/''"
            and region = "''r''" and project = "''p''" and op = "Operation ''insert''"
            and region' = "''r''" and project' = "''p''"
            and err = "Error ''googleapi: Error 404: notFound''",
          THEN conjunct2, THEN conjunct2, THEN conjunct2, THEN conjunct2, THEN conjunct2, THEN conjunct2, THEN conjunct1]
       n v
  have f: "resourceComputeForwardingRuleCreate env_not_found config_data [] =
       (None, SetId [] (SetId ''rule'' config_data),
        [ForwardingRules_Insert ''p'' ''r''
           (create_frule env_not_found config_data (FieldValue ''global/networks/default'')
              (FieldValue ''subnetworks/'')),
         SharedOperationWait (Operation ''insert'') ''p'' ''Creating Fowarding Rule'',
         ForwardingRules_Get ''p'' ''r'' ''rule''])"
    by simp
  from a b c f show ?thesis by blast
qed

subsection \<open>Create stores the ID before it waits\<close>

text \<open>
  C6. With network, subnetwork, region and project resolved: if the insert is accepted
  and the wait for its operation fails, Create returns the error of the wait and the ID is
  the configured name; if the insert itself fails, Create returns the wrapped error and the
  resource data is as it was, so the ID is not set.
\<close>

theorem create_sets_id_before_wait:
  assumes "ParseNetworkFieldValue config (GetString d ''network'') d = Inr network"
    and "ParseSubnetworkFieldValue config (GetString d ''subnetwork'') d = Inr subnetwork"
    and "getRegion config d = Inr region"
    and "getProject config d = Inr project"
  shows "(Insert_Do config cs project region (create_frule config d network subnetwork) = Inr op
          \<and> computeSharedOperationWait config
               (cs @ [ForwardingRules_Insert project region (create_frule config d network subnetwork)])
               op project ''Creating Fowarding Rule'' = Some err
        \<longrightarrow> resourceComputeForwardingRuleCreate config d cs =
              (Some err, SetId (GetString d ''name'') d,
               cs @ [ForwardingRules_Insert project region (create_frule config d network subnetwork),
                     SharedOperationWait op project ''Creating Fowarding Rule''])
            \<and> Id (fst (snd (resourceComputeForwardingRuleCreate config d cs))) = GetString d ''name'')
       \<and> (Insert_Do config cs project region (create_frule config d network subnetwork) = Inl err
        \<longrightarrow> resourceComputeForwardingRuleCreate config d cs =
              (Some (Errorf ''Error creating ForwardingRule: '' err), d,
               cs @ [ForwardingRules_Insert project region (create_frule config d network subnetwork)]))"
proof -
  have "Name (create_frule config d network subnetwork) = GetString d ''name''"
    by (simp add: create_frule_def)
  with assms show ?thesis
    by (simp add: resourceComputeForwardingRuleCreate_def Let_def Id_def SetId_def)
qed

text \<open>
  A failing wait leaves the ID \<^verbatim>\<open>rule\<close> where there was none; a failing insert
  leaves the resource data as it was.
\<close>

theorem create_sets_id_before_wait_witness:
  "resourceComputeForwardingRuleCreate env_wait_fails config_data [] =
     (Some (Error ''timeout''), SetId ''rule'' config_data,
      [ForwardingRules_Insert ''p'' ''r''
         (create_frule env_wait_fails config_data (FieldValue ''global/networks/default'')
            (FieldValue ''subnetworks/'')),
       SharedOperationWait (Operation ''insert'') ''p'' ''Creating Fowarding Rule''])
   \<and> Id (fst (snd (resourceComputeForwardingRuleCreate env_wait_fails config_data []))) = ''rule''
   \<and> Id config_data = []
   \<and> resourceComputeForwardingRuleCreate env_insert_fails config_data [] =
       (Some (Error ''Error creating ForwardingRule: quota''), config_data,
        [ForwardingRules_Insert ''p'' ''r''
           (create_frule env_insert_fails config_data (FieldValue ''global/networks/default'')
              (FieldValue ''subnetworks/''))])"
proof -
  have w: "ParseNetworkFieldValue env_wait_fails (GetString config_data ''network'') config_data =
             Inr (FieldValue ''global/networks/default'')"
    "ParseSubnetworkFieldValue env_wait_fails (GetString config_data ''subnetwork'') config_data =
             Inr (FieldValue ''subnetworks/'')"
    "getRegion env_wait_fails config_data = Inr ''r''"
    "getProject env_wait_fails config_data = Inr ''p''"
    by (simp_all add: env_wait_fails_def env_ok_def GetString_def config_data_def)
  have w': "Insert_Do env_wait_fails cs p r f = Inr (Operation ''insert'')"
    "computeSharedOperationWait env_wait_fails cs opn p a = Some (Error ''timeout'')"
    for cs p r f opn a
    by (simp_all add: env_wait_fails_def env_ok_def)
  have i: "ParseNetworkFieldValue env_insert_fails (GetString config_data ''network'') config_data =
             Inr (FieldValue ''global/networks/default'')"
    "ParseSubnetworkFieldValue env_insert_fails (GetString config_data ''subnetwork'') config_data =
             Inr (FieldValue ''subnetworks/'')"
    "getRegion env_insert_fails config_data = Inr ''r''"
    "getProject env_insert_fails config_data = Inr ''p''"
    by (simp_all add: env_insert_fails_def env_ok_def GetString_def config_data_def)
  have i': "Insert_Do env_insert_fails cs p r f = Inl (Error ''quota'')" for cs p r f
    by (simp add: env_insert_fails_def env_ok_def)
  have v: "GetString config_data ''name'' = ''rule''" "Id config_data = []"
    by (simp_all add: GetString_def Id_def config_data_def)
  from create_sets_id_before_wait [OF w, of "[]" "Operation ''insert''" "Error ''timeout''"] w' v
  have a: "resourceComputeForwardingRuleCreate env_wait_fails config_data [] =
     (Some (Error ''timeout''), SetId ''rule'' config_data,
      [ForwardingRules_Insert ''p'' ''r''
         (create_frule env_wait_fails config_data (FieldValue ''global/networks/default'')
            (FieldValue ''subnetworks/'')),
       SharedOperationWait (Operation ''insert'') ''p'' ''Creating Fowarding Rule''])
   \<and> Id (fst (snd (resourceComputeForwardingRuleCreate env_wait_fails config_data []))) = ''rule''"
    by (simp add: Id_def SetId_def)
  from create_sets_id_before_wait [OF i, of "[]" _ "Error ''quota''"] i'
  have b: "resourceComputeForwardingRuleCreate env_insert_fails config_data [] =
       (Some (Error ''Error creating ForwardingRule: quota''), config_data,
        [ForwardingRules_Insert ''p'' ''r''
           (create_frule env_insert_fails config_data (FieldValue ''global/networks/default'')
              (FieldValue ''subnetworks/''))])"
    by (simp add: Errorf_def)
  from a b v show ?thesis by blast
qed

subsection \<open>Delete clears the ID only on success\<close>

text \<open>
  C7. Delete returns \<^verbatim>\<open>nil\<close> exactly when the delete call and the wait for its
  operation succeed, and then the ID is the empty string. Otherwise the resource data,
  the ID with it, is unchanged and Delete returns the error: that of the region or the
  project resolution, the wrapped error of the delete call, or that of the wait.
\<close>

theorem delete_clears_id_iff_success:
  "(fst (resourceComputeForwardingRuleDelete config d cs) = None \<longleftrightarrow> delete_succeeds config d cs)
   \<and> (delete_succeeds config d cs \<longrightarrow>
        fst (snd (resourceComputeForwardingRuleDelete config d cs)) = SetId [] d
        \<and> Id (fst (snd (resourceComputeForwardingRuleDelete config d cs))) = [])
   \<and> (\<not> delete_succeeds config d cs \<longrightarrow>
        fst (snd (resourceComputeForwardingRuleDelete config d cs)) = d)
   \<and> (getRegion config d = Inl err \<longrightarrow>
        fst (resourceComputeForwardingRuleDelete config d cs) = Some err)
   \<and> (getRegion config d = Inr region \<and> getProject config d = Inl err \<longrightarrow>
        fst (resourceComputeForwardingRuleDelete config d cs) = Some err)
   \<and> (getRegion config d = Inr region \<and> getProject config d = Inr project
        \<and> Delete_Do config cs project region (Id d) = Inl err \<longrightarrow>
        fst (resourceComputeForwardingRuleDelete config d cs) =
          Some (Errorf ''Error deleting ForwardingRule: '' err))
   \<and> (getRegion config d = Inr region \<and> getProject config d = Inr project
        \<and> Delete_Do config cs project region (Id d) = Inr op
        \<and> computeOperationWait config (cs @ [ForwardingRules_Delete project region (Id d)])
             op project ''Deleting Forwarding Rule'' = Some err \<longrightarrow>
        fst (resourceComputeForwardingRuleDelete config d cs) = Some err)"
  by (auto simp: resourceComputeForwardingRuleDelete_def delete_succeeds_def Let_def
      Id_def SetId_def split: sum.splits option.splits)

text \<open>
  The successful Delete and the four failing ones in the concrete environments.
\<close>

theorem delete_clears_id_iff_success_witness:
  "delete_succeeds env_ok changed_data []
   \<and> resourceComputeForwardingRuleDelete env_ok changed_data [] =
       (None, SetId [] changed_data,
        [ForwardingRules_Delete ''p'' ''r'' ''rule'',
         OperationWait (Operation ''delete'') ''p'' ''Deleting Forwarding Rule''])
   \<and> Id (fst (snd (resourceComputeForwardingRuleDelete env_ok changed_data []))) = []
   \<and> \<not> delete_succeeds env_region_fails changed_data []
   \<and> resourceComputeForwardingRuleDelete env_region_fails changed_data [] =
       (Some (Error ''no region''), changed_data, [])
   \<and> \<not> delete_succeeds env_project_fails changed_data []
   \<and> resourceComputeForwardingRuleDelete env_project_fails changed_data [] =
       (Some (Error ''no project''), changed_data, [])
   \<and> \<not> delete_succeeds env_delete_fails changed_data []
   \<and> resourceComputeForwardingRuleDelete env_delete_fails changed_data [] =
       (Some (Error ''Error deleting ForwardingRule: forbidden''), changed_data,
        [ForwardingRules_Delete ''p'' ''r'' ''rule''])
   \<and> \<not> delete_succeeds env_wait_fails changed_data []
   \<and> resourceComputeForwardingRuleDelete env_wait_fails changed_data [] =
       (Some (Error ''timeout''), changed_data,
        [ForwardingRules_Delete ''p'' ''r'' ''rule'',
         OperationWait (Operation ''delete'') ''p'' ''Deleting Forwarding Rule''])
   \<and> Id changed_data = ''rule''"
proof -
  have s: "delete_succeeds env_ok changed_data []"
    "\<not> delete_succeeds env_region_fails changed_data []"
    "\<not> delete_succeeds env_project_fails changed_data []"
    "\<not> delete_succeeds env_delete_fails changed_data []"
    "\<not> delete_succeeds env_wait_fails changed_data []"
    by (simp_all add: delete_succeeds_def env_ok_def env_region_fails_def env_project_fails_def
        env_delete_fails_def env_wait_fails_def)
  have i: "Id changed_data = ''rule''"
    by (simp add: Id_def changed_data_def config_data_def)
  have c: "snd (snd (resourceComputeForwardingRuleDelete env_ok changed_data [])) =
        [ForwardingRules_Delete ''p'' ''r'' ''rule'',
         OperationWait (Operation ''delete'') ''p'' ''Deleting Forwarding Rule'']"
    "snd (snd (resourceComputeForwardingRuleDelete env_region_fails changed_data [])) = []"
    "snd (snd (resourceComputeForwardingRuleDelete env_project_fails changed_data [])) = []"
    "snd (snd (resourceComputeForwardingRuleDelete env_delete_fails changed_data [])) =
        [ForwardingRules_Delete ''p'' ''r'' ''rule'']"
    "snd (snd (resourceComputeForwardingRuleDelete env_wait_fails changed_data [])) =
        [ForwardingRules_Delete ''p'' ''r'' ''rule'',
         OperationWait (Operation ''delete'') ''p'' ''Deleting Forwarding Rule'']"
    by (simp_all add: resourceComputeForwardingRuleDelete_def i env_ok_def env_region_fails_def
        env_project_fails_def env_delete_fails_def env_wait_fails_def Let_def)
  have e: "getRegion env_region_fails changed_data = Inl (Error ''no region'')"
    "getRegion env_project_fails changed_data = Inr ''r''"
    "getProject env_project_fails changed_data = Inl (Error ''no project'')"
    "getRegion env_delete_fails changed_data = Inr ''r''"
    "getProject env_delete_fails changed_data = Inr ''p''"
    "Delete_Do env_delete_fails [] ''p'' ''r'' (Id changed_data) = Inl (Error ''forbidden'')"
    "getRegion env_wait_fails changed_data = Inr ''r''"
    "getProject env_wait_fails changed_data = Inr ''p''"
    "Delete_Do env_wait_fails [] ''p'' ''r'' (Id changed_data) = Inr (Operation ''delete'')"
    "computeOperationWait env_wait_fails ([] @ [ForwardingRules_Delete ''p'' ''r'' (Id changed_data)])
       (Operation ''delete'') ''p'' ''Deleting Forwarding Rule'' = Some (Error ''timeout'')"
    by (simp_all add: env_ok_def env_region_fails_def env_project_fails_def
        env_delete_fails_def env_wait_fails_def)
  have a: "resourceComputeForwardingRuleDelete env_ok changed_data [] =
       (None, SetId [] changed_data,
        [ForwardingRules_Delete ''p'' ''r'' ''rule'',
         OperationWait (Operation ''delete'') ''p'' ''Deleting Forwarding Rule''])
     \<and> Id (fst (snd (resourceComputeForwardingRuleDelete env_ok changed_data []))) = []"
    using delete_clears_id_iff_success [of env_ok changed_data "[]"] s(1) c(1)
    by (cases "resourceComputeForwardingRuleDelete env_ok changed_data []")
       (simp add: Id_def SetId_def)
  have b1: "resourceComputeForwardingRuleDelete env_region_fails changed_data [] =
       (Some (Error ''no region''), changed_data, [])"
    using delete_clears_id_iff_success [of env_region_fails changed_data "[]" "Error ''no region''"]
      s(2) c(2) e(1)
    by (cases "resourceComputeForwardingRuleDelete env_region_fails changed_data []") simp
  have b2: "resourceComputeForwardingRuleDelete env_project_fails changed_data [] =
       (Some (Error ''no project''), changed_data, [])"
    using delete_clears_id_iff_success
            [of env_project_fails changed_data "[]" "Error ''no project''" "''r''"]
      s(3) c(3) e(2,3)
    by (cases "resourceComputeForwardingRuleDelete env_project_fails changed_data []") simp
  have b3: "resourceComputeForwardingRuleDelete env_delete_fails changed_data [] =
       (Some (Error ''Error deleting ForwardingRule: forbidden''), changed_data,
        [ForwardingRules_Delete ''p'' ''r'' ''rule''])"
    using delete_clears_id_iff_success
            [of env_delete_fails changed_data "[]" "Error ''forbidden''" "''r''" "''p''"]
      s(4) c(4) e(4,5,6)
    by (cases "resourceComputeForwardingRuleDelete env_delete_fails changed_data []")
       (simp add: Errorf_def)
  have b4: "resourceComputeForwardingRuleDelete env_wait_fails changed_data [] =
       (Some (Error ''timeout''), changed_data,
        [ForwardingRules_Delete ''p'' ''r'' ''rule'',
         OperationWait (Operation ''delete'') ''p'' ''Deleting Forwarding Rule''])"
    using delete_clears_id_iff_success
            [of env_wait_fails changed_data "[]" "Error ''timeout''" "''r''" "''p''"
                "Operation ''delete''"]
      s(5) c(5) e(7,8,9,10)
    by (cases "resourceComputeForwardingRuleDelete env_wait_fails changed_data []") simp
  from s a b1 b2 b3 b4 i show ?thesis by blast
qed

subsection \<open>At most five ports\<close>

text \<open>
  C8. The schema declares \<^verbatim>\<open>ports\<close> as a set of strings with \<^verbatim>\<open>MaxItems\<close> 5.
  So a configuration that passes the check of \<^verbatim>\<open>MaxItems\<close> has at most 5 ports, and
  every rule Create passes to the insert call has at most 5 ports.
\<close>

theorem ports_at_most_five:
  "(\<exists>s. map_of (Schema resourceComputeForwardingRule) ''ports'' = Some s
        \<and> Type s = TypeSet \<and> Elem s = Some TypeString \<and> MaxItems s = 5)
   \<and> (validateMaxItems config (Schema resourceComputeForwardingRule) d \<longrightarrow>
        length (Set_List config (GetSet d ''ports'')) \<le> 5
        \<and> (\<forall>project region frule.
              ForwardingRules_Insert project region frule
                \<in> set (new_calls cs (resourceComputeForwardingRuleCreate config d cs))
              \<longrightarrow> length (Ports frule) \<le> 5))"
proof (intro conjI impI allI)
  show "\<exists>s. map_of (Schema resourceComputeForwardingRule) ''ports'' = Some s
        \<and> Type s = TypeSet \<and> Elem s = Some TypeString \<and> MaxItems s = 5"
    by (simp add: resourceComputeForwardingRule_def forwardingRuleSchema_def zeroSchema_def)
next
  assume "validateMaxItems config (Schema resourceComputeForwardingRule) d"
  then show "length (Set_List config (GetSet d ''ports'')) \<le> 5"
    by (simp add: validateMaxItems_ports)
next
  fix project region frule
  assume v: "validateMaxItems config (Schema resourceComputeForwardingRule) d"
    and c: "ForwardingRules_Insert project region frule
                \<in> set (new_calls cs (resourceComputeForwardingRuleCreate config d cs))"
  from c Create_calls [of cs config d]
  obtain network subnetwork region' project' rest where
    r: "new_calls cs (resourceComputeForwardingRuleCreate config d cs) =
           ForwardingRules_Insert project' region' (create_frule config d network subnetwork) # rest"
       "\<not> list_ex mutating rest"
    by auto
  from c r have "ForwardingRules_Insert project region frule =
      ForwardingRules_Insert project' region' (create_frule config d network subnetwork)"
    by (auto simp: list_ex_iff)
  then have "Ports frule = Set_List config (GetSet d ''ports'')"
    by (simp add: create_frule_def append_ports_eq)
  with v show "length (Ports frule) \<le> 5"
    by (simp add: validateMaxItems_ports)
qed

text \<open>
  The concrete configuration has two ports, passes the check and is inserted.
\<close>

theorem ports_at_most_five_witness:
  "validateMaxItems env_ok (Schema resourceComputeForwardingRule) config_data
   \<and> ForwardingRules_Insert ''p'' ''r''
       (create_frule env_ok config_data (FieldValue ''global/networks/default'')
          (FieldValue ''subnetworks/''))
       \<in> set (new_calls [] (resourceComputeForwardingRuleCreate env_ok config_data []))
   \<and> length (Ports (create_frule env_ok config_data (FieldValue ''global/networks/default'')
          (FieldValue ''subnetworks/''))) \<le> 5
   \<and> length (Set_List env_ok (GetSet config_data ''ports'')) = 2"
proof -
  have l: "length (Set_List env_ok (GetSet config_data ''ports'')) = 2"
    by (simp add: env_ok_def GetSet_def config_data_def list_ports_def)
  then have v: "validateMaxItems env_ok (Schema resourceComputeForwardingRule) config_data"
    by (simp add: validateMaxItems_ports)
  have h: "ForwardingRules_Insert ''p'' ''r''
      (create_frule env_ok config_data (FieldValue ''global/networks/default'') (FieldValue ''subnetworks/''))
     \<in> set (new_calls [] (resourceComputeForwardingRuleCreate env_ok config_data []))"
    by (simp add: Create_env_ok)
  from ports_at_most_five [of env_ok config_data "[]"] v h
  have "length (Ports (create_frule env_ok config_data (FieldValue ''global/networks/default'')
          (FieldValue ''subnetworks/''))) \<le> 5"
    by blast
  with v h l show ?thesis by blast
qed

end
